theory Spec2Isabelle
  imports Complex_Main
begin

section \<open>The connection registry (lib/psBus.ts)\<close>

text \<open>
  The module keeps three globals: the current streaming session and two connectivity
  flags. A session object is identified by a number (JavaScript compares the objects by
  reference). The session library is not part of the repository; what the registry needs
  of it is taken as follows.
  \<^item> \<open>disconnect()\<close> may throw: the parameter \<open>D\<close> gives, for each session, the error
    it throws (\<open>None\<close>: it returns). Events the old session fires while it disconnects
    can only run the callbacks below, which write the two flags; \<open>registerPS\<close> sets
    both flags after the call, so they are left out of \<open>callDisconnect\<close>.
  \<^item> \<open>addEventListener\<close> stores a callback under an event name; the callbacks of one
    session are run in the order they were added when the session fires that event
    (\<open>fireEvent\<close>). The table \<open>listeners\<close> holds them for all sessions.
  The trace \<open>steps\<close> records, in program order, the calls of \<open>disconnect\<close> and
  \<open>addEventListener\<close>, the warning of the catch block and the assignment of the global.
  Other console output is not modelled.
\<close>

type_synonym handle = nat

datatype listenerBody = SetWebSocketConnected bool | SetVideoStreamActive bool

datatype regStep =
    DisconnectCalled handle
  | ConsoleWarn string
  | GlobalAssigned "handle option"
  | ListenerAdded handle string

record registry =
  globalPixelStreaming :: "handle option"
  isWebSocketConnected :: bool
  isVideoStreamActive :: bool
  listeners :: "(handle \<times> string \<times> listenerBody) list"
  steps :: "regStep list"

text \<open>
  A statement runs on the registry and either completes or throws; the pair holds the
  registry it leaves and the error thrown, if any.
\<close>

type_synonym stmt = "registry \<Rightarrow> registry \<times> string option"

definition skip :: stmt where
  "skip r = (r, None)"

definition seq :: "stmt \<Rightarrow> stmt \<Rightarrow> stmt" where
  "seq f g r = (case f r of (r', None) \<Rightarrow> g r' | (r', Some e) \<Rightarrow> (r', Some e))"

definition tryCatch :: "stmt \<Rightarrow> (string \<Rightarrow> stmt) \<Rightarrow> stmt" where
  "tryCatch f h r = (case f r of (r', None) \<Rightarrow> (r', None) | (r', Some e) \<Rightarrow> h e r')"

definition callDisconnect :: "(handle \<Rightarrow> string option) \<Rightarrow> handle \<Rightarrow> stmt" where
  "callDisconnect D h r = (r\<lparr>steps := steps r @ [DisconnectCalled h]\<rparr>, D h)"

definition consoleWarn :: "string \<Rightarrow> stmt" where
  "consoleWarn e r = (r\<lparr>steps := steps r @ [ConsoleWarn e]\<rparr>, None)"

definition assignGlobal :: "handle option \<Rightarrow> stmt" where
  "assignGlobal ps r =
     (r\<lparr>globalPixelStreaming := ps, steps := steps r @ [GlobalAssigned ps]\<rparr>, None)"

definition addEventListener :: "handle \<Rightarrow> string \<Rightarrow> listenerBody \<Rightarrow> stmt" where
  "addEventListener h name body r =
     (r\<lparr>listeners := listeners r @ [(h, name, body)],
        steps := steps r @ [ListenerAdded h name]\<rparr>, None)"

definition resetFlags :: stmt where
  "resetFlags r = (r\<lparr>isWebSocketConnected := False, isVideoStreamActive := False\<rparr>, None)"

definition registerPS :: "(handle \<Rightarrow> string option) \<Rightarrow> handle option \<Rightarrow> stmt" where
  "registerPS D ps r =
     seq (case globalPixelStreaming r of
            Some old \<Rightarrow>
              if Some old \<noteq> ps then tryCatch (callDisconnect D old) consoleWarn else skip
          | None \<Rightarrow> skip)
    (seq (assignGlobal ps)
         (case ps of
            Some h \<Rightarrow>
              seq (addEventListener h ''webRtcConnected'' (SetWebSocketConnected True))
             (seq (addEventListener h ''webRtcDisconnected'' (SetWebSocketConnected False))
             (seq (addEventListener h ''videoInitialized'' (SetVideoStreamActive True))
             (seq (addEventListener h ''videoEncoderAvgQP'' (SetVideoStreamActive True))
                  resetFlags)))
          | None \<Rightarrow> resetFlags)) r"

definition getPS :: "registry \<Rightarrow> handle option" where
  "getPS r = globalPixelStreaming r"

definition isPSReady :: "registry \<Rightarrow> bool" where
  "isPSReady r = (globalPixelStreaming r \<noteq> None \<and> isWebSocketConnected r)"

definition isVideoWorking :: "registry \<Rightarrow> bool" where
  "isVideoWorking r = isVideoStreamActive r"

text \<open>The session \<open>h\<close> fires the event \<open>name\<close>: its callbacks for that name run in order.\<close>

definition runListener :: "registry \<Rightarrow> listenerBody \<Rightarrow> registry" where
  "runListener r b =
     (case b of
        SetWebSocketConnected v \<Rightarrow> r\<lparr>isWebSocketConnected := v\<rparr>
      | SetVideoStreamActive v \<Rightarrow> r\<lparr>isVideoStreamActive := v\<rparr>)"

definition fireEvent :: "registry \<Rightarrow> handle \<times> string \<Rightarrow> registry" where
  "fireEvent r ev =
     foldl runListener r
       (map (\<lambda>(h, name, body). body)
          (filter (\<lambda>(h, name, body). (h, name) = ev) (listeners r)))"

text \<open>
  Every callback the module ever installs that sets the connected flag to true is
  installed under the name \<open>webRtcConnected\<close>. The table of a registry that only
  \<open>registerPS\<close> has written has this form.
\<close>

definition listenersOk :: "registry \<Rightarrow> bool" where
  "listenersOk r =
     list_all (\<lambda>(h, name, body). body = SetWebSocketConnected True \<longrightarrow> name = ''webRtcConnected'')
       (listeners r)"

definition initialRegistry :: registry where
  "initialRegistry =
     \<lparr>globalPixelStreaming = None, isWebSocketConnected = False, isVideoStreamActive = False,
      listeners = [], steps = []\<rparr>"

section \<open>JavaScript values\<close>

text \<open>
  What \<open>JSON.parse\<close> returns. A number is given by its value (every finite double
  is a rational; literals beyond the range of a double are left out); an object by its
  properties. \<open>None\<close> of \<open>jsval\<close> is JavaScript's \<open>undefined\<close>.
  \<open>JSON.parse\<close> and \<open>JSON.stringify\<close> belong to the platform: the handlers take
  them as the parameters \<open>P\<close> (\<open>None\<close>: a SyntaxError is thrown) and \<open>S\<close>.
\<close>

datatype json =
    JNull
  | JBool bool
  | JNum rat
  | JStr string
  | JArr "json list"
  | JObj "(string \<times> json) list"

type_synonym jsval = "json option"

fun truthy :: "json \<Rightarrow> bool" where
  "truthy JNull = False"
| "truthy (JBool b) = b"
| "truthy (JNum n) = (n \<noteq> 0)"
| "truthy (JStr s) = (s \<noteq> [])"
| "truthy (JArr xs) = True"
| "truthy (JObj kvs) = True"

definition truthyV :: "jsval \<Rightarrow> bool" where
  "truthyV v = (case v of None \<Rightarrow> False | Some x \<Rightarrow> truthy x)"

text \<open>\<open>a || b\<close>, and \<open>a || lit\<close> where the last operand is a literal.\<close>

definition jsOr :: "jsval \<Rightarrow> jsval \<Rightarrow> jsval" where
  "jsOr a b = (if truthyV a then a else b)"

definition jsOrLit :: "jsval \<Rightarrow> json \<Rightarrow> json" where
  "jsOrLit a lit = (case a of None \<Rightarrow> lit | Some x \<Rightarrow> if truthy x then x else lit)"

text \<open>
  Reading a property. None of the names the handlers read is a property of a string, a
  number, a boolean or an array, so only an object answers. Reading a property of
  \<open>null\<close> or \<open>undefined\<close> without \<open>?.\<close> throws; the two places where the source can
  do so are written out in \<open>infoListener\<close> and \<open>normalizeSequence\<close>.
\<close>

fun getProp :: "string \<Rightarrow> json \<Rightarrow> jsval" where
  "getProp k (JObj kvs) = map_of kvs k"
| "getProp k v = None"

definition propV :: "string \<Rightarrow> jsval \<Rightarrow> jsval" where
  "propV k v = (case v of None \<Rightarrow> None | Some x \<Rightarrow> getProp k x)"

fun isString :: "json \<Rightarrow> bool" where
  "isString (JStr s) = True"
| "isString v = False"

fun isArray :: "json \<Rightarrow> bool" where
  "isArray (JArr xs) = True"
| "isArray v = False"

text \<open>\<open>typeof v === 'object'\<close> (true of \<open>null\<close> as well).\<close>

fun typeofObject :: "json \<Rightarrow> bool" where
  "typeofObject JNull = True"
| "typeofObject (JArr xs) = True"
| "typeofObject (JObj kvs) = True"
| "typeofObject v = False"

fun arrayItems :: "json \<Rightarrow> json list" where
  "arrayItems (JArr xs) = xs"
| "arrayItems v = []"

text \<open>The decimal digits of \<open>Date.now()\<close> inside a template literal.\<close>

definition digitChar :: "nat \<Rightarrow> char" where
  "digitChar d = ''0123456789'' ! d"

function showNat :: "nat \<Rightarrow> string" where
  "showNat n = (if n < 10 then [digitChar n] else showNat (n div 10) @ [digitChar (n mod 10)])"
  by pat_completeness auto
termination
  by (relation "measure (\<lambda>n. n)") auto

declare showNat.simps [simp del]

section \<open>The configurator page (app/configurator/page.tsx)\<close>

datatype ModeType = photo | video

datatype RenderStatus = queued | rendering | complete | failed

record Screenshot =
  shot_id :: string
  url :: json
  timestamp :: nat

record BackgroundOption =
  bg_id :: string
  bg_name :: string
  dayImage :: string
  nightImage :: string

text \<open>
  The fields of \<open>SequenceInfo\<close> and \<open>RenderJob\<close> are filled from the engine's payload
  without a check of their type, so they hold JavaScript values.
\<close>

record SequenceInfo =
  seq_id :: json
  seq_name :: json
  category :: json
  duration :: json
  thumbnail :: jsval

record RenderJob =
  job_id :: json
  sequenceId :: json
  status :: RenderStatus
  progress :: json
  downloadUrl :: jsval
  errorMessage :: jsval

text \<open>
  The callbacks handed to \<open>setTimeout\<close>, with the values their closures hold.
\<close>

datatype task =
    SetCloudflareURLTask handle string string
  | LoadSequencesTask bool string
  | RenderTask handle "string option list"

text \<open>
  The state of \<open>ConfiguratorContent\<close>: the \<open>carId\<close> of the URL, the React state the
  handlers read and write, the commands given to \<open>emitUIInteraction\<close> (with the session
  that received them, in order) and the pending timers (delay in milliseconds and
  callback). A slot of the selection queue is \<open>None\<close> where the array holds
  \<open>undefined\<close>, which \<open>splice\<close> can put there. Each handler runs on the state the
  previous one left: React's re-render between two events is taken as done, so a handler
  sees the current values of what it reads, with the one exception told at
  \<open>onChangeBackground\<close>. The time \<open>Date.now()\<close> is the argument \<open>now\<close>, one value
  for a handler's run.
\<close>

record cstate =
  carId :: string
  webSocketUrl :: "string option"
  mode :: ModeType
  isReady :: bool
  isCarLoaded :: bool
  selectedColorId :: "string option"
  selectedWheelId :: "string option"
  selectedBackground :: BackgroundOption
  isDayMode :: json
  screenshots :: "Screenshot list"
  sequences :: "SequenceInfo list"
  isLoadingSequences :: bool
  selectedSequences :: "string option list"
  isPlaying :: bool
  renderJob :: "RenderJob option"
  sent :: "(handle \<times> json) list"
  timers :: "(nat \<times> task) list"

definition emitUIInteraction :: "handle \<Rightarrow> json \<Rightarrow> cstate \<Rightarrow> cstate" where
  "emitUIInteraction ps descriptor st = st\<lparr>sent := sent st @ [(ps, descriptor)]\<rparr>"

definition setTimeout :: "task \<Rightarrow> nat \<Rightarrow> cstate \<Rightarrow> cstate" where
  "setTimeout cb delay st = st\<lparr>timers := timers st @ [(delay, cb)]\<rparr>"

subsection \<open>Outbound commands\<close>

definition command :: "string \<Rightarrow> string \<Rightarrow> (string \<times> json) list \<Rightarrow> json" where
  "command t a rest =
     JObj ([(''ns'', JStr ''Configurator''), (''type'', JStr t), (''action'', JStr a)] @ rest)"

definition loadByIdCommand :: "string \<Rightarrow> json" where
  "loadByIdCommand cid = command ''Car'' ''LoadById'' [(''value'', JStr cid)]"

definition setCloudflareURLCommand :: "string \<Rightarrow> string \<Rightarrow> json" where
  "setCloudflareURLCommand wsUrl cid =
     command ''System'' ''SetCloudflareURL'' [(''value'', JStr wsUrl), (''carId'', JStr cid)]"

definition getSequencesCommand :: "string \<Rightarrow> json" where
  "getSequencesCommand cid = command ''Sequence'' ''GetSequences'' [(''carId'', JStr cid)]"

definition stopSequenceCommand :: json where
  "stopSequenceCommand = command ''Sequence'' ''StopSequence'' []"

text \<open>An \<open>undefined\<close> slot of an array is \<open>null\<close> in the descriptor as serialized.\<close>

definition slotJson :: "string option \<Rightarrow> json" where
  "slotJson x = (case x of None \<Rightarrow> JNull | Some s \<Rightarrow> JStr s)"

definition renderSequenceListCommand :: "string option list \<Rightarrow> json" where
  "renderSequenceListCommand ids =
     command ''Render'' ''RenderSequenceList''
       [(''data'', JObj
          [(''sequenceIds'', JArr (map slotJson ids)),
           (''combineToSingleFile'', JBool (length ids > 1)),
           (''settings'', JObj
              [(''quality'', JStr ''High''),
               (''format'', JStr ''MP4''),
               (''resolution'', JObj [(''x'', JNum 1920), (''y'', JNum 1080)]),
               (''frameRate'', JNum 30)])])]"

definition cancelRenderCommand :: "(json \<Rightarrow> string) \<Rightarrow> json \<Rightarrow> json" where
  "cancelRenderCommand S jobId =
     command ''Render'' ''CancelRender'' [(''data'', JStr (S (JObj [(''jobId'', jobId)])))]"

subsection \<open>Effects on mount and on a change of the car id\<close>

text \<open>
  \<open>checkConnection\<close> runs when its effect is set up (on mount and whenever \<open>carId\<close> or
  \<open>isCarLoaded\<close> has changed) and then every second. \<open>carIdChanged\<close> is the new car
  id of the URL together with the effect of lines 822-824, which runs on that change.
\<close>

definition checkConnection :: "registry \<Rightarrow> cstate \<Rightarrow> cstate" where
  "checkConnection r st =
     (let ready = isPSReady r;
          st1 = st\<lparr>isReady := ready\<rparr>
      in if ready \<and> \<not> isCarLoaded st then
           (case getPS r of
              Some ps \<Rightarrow> emitUIInteraction ps (loadByIdCommand (carId st)) st1
            | None \<Rightarrow> st1)
         else st1)"

definition carIdChanged :: "string \<Rightarrow> cstate \<Rightarrow> cstate" where
  "carIdChanged newId st = st\<lparr>carId := newId, isCarLoaded := False\<rparr>"

subsection \<open>Sequence discovery request\<close>

text \<open>
  \<open>loadSequencesForCurrentLevel\<close> reads \<open>isReady\<close> and \<open>carId\<close> from its closure; they
  are its first two arguments here.
\<close>

definition loadSequencesForCurrentLevel :: "bool \<Rightarrow> string \<Rightarrow> registry \<Rightarrow> cstate \<Rightarrow> cstate" where
  "loadSequencesForCurrentLevel ready cid r st =
     (if \<not> ready then st
      else
        let st1 = st\<lparr>isLoadingSequences := True, sequences := []\<rparr>
        in case getPS r of
             Some ps \<Rightarrow> emitUIInteraction ps (getSequencesCommand cid) st1
           | None \<Rightarrow> st1\<lparr>isLoadingSequences := False\<rparr>)"

subsection \<open>The response handler\<close>

definition isAction :: "json \<Rightarrow> string \<Rightarrow> string \<Rightarrow> bool" where
  "isAction event t a =
     (getProp ''type'' event = Some (JStr t) \<and> getProp ''action'' event = Some (JStr a))"

definition statusOK :: "json \<Rightarrow> bool" where
  "statusOK event = (getProp ''status'' event = Some (JStr ''OK''))"

definition onCarLoadById :: "registry \<Rightarrow> json \<Rightarrow> cstate \<Rightarrow> cstate" where
  "onCarLoadById r event st =
     (if statusOK event then
        let st1 = st\<lparr>isCarLoaded := True\<rparr>
        in case webSocketUrl st of
             None \<Rightarrow> st1
           | Some wsUrl \<Rightarrow>
               if wsUrl = [] then st1
               else (case getPS r of
                       None \<Rightarrow> st1
                     | Some ps \<Rightarrow> setTimeout (SetCloudflareURLTask ps wsUrl (carId st)) 100 st1)
      else st)"

text \<open>
  The reload timer calls the \<open>loadSequencesForCurrentLevel\<close> that the handler closed
  over when it was last re-created. \<open>handleUEResponse\<close> is re-created when \<open>carId\<close>,
  \<open>webSocketUrl\<close>, \<open>renderJob\<close> or \<open>mode\<close> has changed, but not when \<open>isReady\<close>
  has: the \<open>isReady\<close> that function reads can be older than the one of the state. It
  is the argument \<open>heldReady\<close> of the handler, of any value. The \<open>carId\<close> it reads
  is the current one.
\<close>

definition onChangeBackground :: "bool \<Rightarrow> json \<Rightarrow> cstate \<Rightarrow> cstate" where
  "onChangeBackground heldReady event st =
     (if statusOK event \<and> mode st = video then
        setTimeout (LoadSequencesTask heldReady (carId st)) 500
          (st\<lparr>sequences := [], selectedSequences := [], isPlaying := False\<rparr>)
      else st)"

definition onChangeDayNight :: "json \<Rightarrow> cstate \<Rightarrow> cstate" where
  "onChangeDayNight event st =
     (if statusOK event then
        (case getProp ''isDay'' event of
           None \<Rightarrow> st
         | Some v \<Rightarrow> st\<lparr>isDayMode := v\<rparr>)
      else st)"

text \<open>
  Both screenshot actions; \<open>prefix\<close> is \<open>screenshot-\<close> or \<open>screenshot-nobg-\<close>.
\<close>

definition onTakeScreenshot :: "string \<Rightarrow> nat \<Rightarrow> json \<Rightarrow> cstate \<Rightarrow> cstate" where
  "onTakeScreenshot prefix now event st =
     (if statusOK event \<and> truthyV (getProp ''data'' event) then
        let screenshotUrl =
              (case getProp ''data'' event of
                 Some (JStr s) \<Rightarrow> Some (JStr s)
               | d \<Rightarrow> jsOr (propV ''url'' d) (Some (JStr [])))
        in case screenshotUrl of
             None \<Rightarrow> st
           | Some u \<Rightarrow>
               if truthy u then
                 st\<lparr>screenshots :=
                      \<lparr>shot_id = prefix @ showNat now, url = u, timestamp = now\<rparr> # screenshots st\<rparr>
               else st
      else st)"

text \<open>
  One raw sequence of a discovery response. Reading a property of \<open>null\<close> throws a
  TypeError, which the handler's \<open>try\<close> block catches.
\<close>

definition normalizeSequence :: "json \<Rightarrow> string + SequenceInfo" where
  "normalizeSequence sq =
     (if sq = JNull then Inl ''TypeError''
      else Inr
        \<lparr>seq_id =
           jsOrLit (jsOr (jsOr (getProp ''sequenceId'' sq) (getProp ''id'' sq))
                      (getProp ''SequenceId'' sq))
             (JStr ''unknown''),
         seq_name =
           jsOrLit (jsOr (jsOr (jsOr (getProp ''displayName'' sq) (getProp ''name'' sq))
                            (getProp ''DisplayName'' sq))
                      (getProp ''sequenceId'' sq))
             (JStr ''Unnamed Sequence''),
         category =
           jsOrLit (jsOr (getProp ''category'' sq) (getProp ''Category'' sq)) (JStr ''Exterior''),
         duration =
           jsOrLit (jsOr (getProp ''duration'' sq) (getProp ''Duration'' sq)) (JNum 10),
         thumbnail =
           jsOr (jsOr (getProp ''thumbnailPath'' sq) (getProp ''ThumbnailPath'' sq))
             (getProp ''thumbnail'' sq)\<rparr>)"

fun mapThrow :: "('a \<Rightarrow> string + 'b) \<Rightarrow> 'a list \<Rightarrow> string + 'b list" where
  "mapThrow f [] = Inr []"
| "mapThrow f (x # xs) =
     (case f x of
        Inl e \<Rightarrow> Inl e
      | Inr y \<Rightarrow> (case mapThrow f xs of Inl e \<Rightarrow> Inl e | Inr ys \<Rightarrow> Inr (y # ys)))"

text \<open>The five places where the list of raw sequences is looked for, in order.\<close>

definition isArrayV :: "jsval \<Rightarrow> bool" where
  "isArrayV v = (case v of None \<Rightarrow> False | Some x \<Rightarrow> isArray x)"

definition itemsV :: "jsval \<Rightarrow> json list" where
  "itemsV v = (case v of None \<Rightarrow> [] | Some x \<Rightarrow> arrayItems x)"

definition findSequencesData :: "jsval \<Rightarrow> json \<Rightarrow> json list" where
  "findSequencesData parsedData event =
     (if truthyV (propV ''sequences'' parsedData) \<and> isArrayV (propV ''sequences'' parsedData)
        then itemsV (propV ''sequences'' parsedData)
      else if truthyV (getProp ''sequences'' event) \<and> isArrayV (getProp ''sequences'' event)
        then itemsV (getProp ''sequences'' event)
      else if truthyV parsedData \<and> isArrayV parsedData
        then itemsV parsedData
      else if truthyV (propV ''sequences'' (getProp ''data'' event))
              \<and> isArrayV (propV ''sequences'' (getProp ''data'' event))
        then itemsV (propV ''sequences'' (getProp ''data'' event))
      else
        (case parsedData of
           None \<Rightarrow> []
         | Some pd \<Rightarrow>
             if truthy pd \<and> typeofObject pd \<and> truthyV (getProp ''sequenceId'' pd) then [pd]
             else []))"

definition loadSequences :: "jsval \<Rightarrow> json \<Rightarrow> cstate \<Rightarrow> cstate" where
  "loadSequences parsedData event st =
     (let sequencesData = findSequencesData parsedData event
      in if length sequencesData > 0 then
           (case mapThrow normalizeSequence sequencesData of
              Inr loadedSequences \<Rightarrow> st\<lparr>sequences := loadedSequences\<rparr>
            | Inl e \<Rightarrow> st\<lparr>sequences := []\<rparr>)
         else st\<lparr>sequences := []\<rparr>)"

definition onGetSequences :: "(string \<Rightarrow> json option) \<Rightarrow> json \<Rightarrow> cstate \<Rightarrow> cstate" where
  "onGetSequences P event st =
     (let st1 = st\<lparr>isLoadingSequences := False\<rparr>
      in if statusOK event then
           (case getProp ''data'' event of
              Some (JStr s) \<Rightarrow>
                (case P s of
                   None \<Rightarrow> st1\<lparr>sequences := []\<rparr>
                 | Some parsed \<Rightarrow> loadSequences (Some parsed) event st1)
            | d \<Rightarrow> loadSequences d event st1)
         else st1\<lparr>sequences := []\<rparr>)"

definition onPlaySequence :: "json \<Rightarrow> cstate \<Rightarrow> cstate" where
  "onPlaySequence event st = st\<lparr>isPlaying := statusOK event\<rparr>"

definition onStopSequence :: "json \<Rightarrow> cstate \<Rightarrow> cstate" where
  "onStopSequence event st = (if statusOK event then st\<lparr>isPlaying := False\<rparr> else st)"

definition onSequenceFinished :: "cstate \<Rightarrow> cstate" where
  "onSequenceFinished st = st\<lparr>isPlaying := False\<rparr>"

text \<open>
  The render branches parse \<open>data\<close> when it is a string and keep the string itself when
  it does not parse.
\<close>

definition parseRenderData :: "(string \<Rightarrow> json option) \<Rightarrow> json \<Rightarrow> jsval" where
  "parseRenderData P event =
     (case getProp ''data'' event of
        Some (JStr s) \<Rightarrow> (case P s of None \<Rightarrow> Some (JStr s) | Some parsed \<Rightarrow> Some parsed)
      | d \<Rightarrow> d)"

definition renderId :: "nat \<Rightarrow> json" where
  "renderId now = JStr (''render-'' @ showNat now)"

definition jobIdOf :: "RenderJob option \<Rightarrow> jsval" where
  "jobIdOf j = map_option job_id j"

definition jobSequenceIdOf :: "RenderJob option \<Rightarrow> jsval" where
  "jobSequenceIdOf j = map_option sequenceId j"

definition jobProgressOf :: "RenderJob option \<Rightarrow> jsval" where
  "jobProgressOf j = map_option progress j"

definition onRenderStarted :: "(string \<Rightarrow> json option) \<Rightarrow> nat \<Rightarrow> json \<Rightarrow> cstate \<Rightarrow> cstate" where
  "onRenderStarted P now event st =
     (let parsedData = parseRenderData P event
      in st\<lparr>renderJob := Some
           \<lparr>job_id = jsOrLit (propV ''jobId'' parsedData) (renderId now),
            sequenceId = jsOrLit (propV ''sequenceId'' parsedData) (JStr ''unknown''),
            status = rendering,
            progress = JNum 0,
            downloadUrl = None,
            errorMessage = None\<rparr>\<rparr>)"

definition onRenderProgress :: "(string \<Rightarrow> json option) \<Rightarrow> nat \<Rightarrow> json \<Rightarrow> cstate \<Rightarrow> cstate" where
  "onRenderProgress P now event st =
     (let parsedData = parseRenderData P event
      in if truthyV parsedData then
           st\<lparr>renderJob := Some
             \<lparr>job_id =
                jsOrLit (jsOr (propV ''jobId'' parsedData) (jobIdOf (renderJob st))) (renderId now),
              sequenceId =
                jsOrLit (jsOr (propV ''sequenceId'' parsedData) (jobSequenceIdOf (renderJob st)))
                  (JStr ''unknown''),
              status = rendering,
              progress = jsOrLit (propV ''progress'' parsedData) (JNum 0),
              downloadUrl = None,
              errorMessage = None\<rparr>\<rparr>
         else st)"

definition finalDownloadUrl :: "jsval \<Rightarrow> jsval" where
  "finalDownloadUrl d =
     (case d of
        None \<Rightarrow> None
      | Some v \<Rightarrow>
          if isString v then Some v
          else if typeofObject v \<and> v \<noteq> JNull then getProp ''url'' v
          else None)"

definition onRenderComplete :: "(string \<Rightarrow> json option) \<Rightarrow> nat \<Rightarrow> json \<Rightarrow> cstate \<Rightarrow> cstate" where
  "onRenderComplete P now event st =
     (let parsedData = parseRenderData P event
      in if truthyV parsedData then
           st\<lparr>renderJob := Some
             \<lparr>job_id =
                jsOrLit (jsOr (propV ''jobId'' parsedData) (jobIdOf (renderJob st))) (renderId now),
              sequenceId =
                jsOrLit (jsOr (propV ''sequenceId'' parsedData) (jobSequenceIdOf (renderJob st)))
                  (JStr ''unknown''),
              status = complete,
              progress = JNum 100,
              downloadUrl = finalDownloadUrl (propV ''downloadUrl'' parsedData),
              errorMessage = None\<rparr>\<rparr>
         else st)"

text \<open>
  \<open>RenderFailed\<close> and \<open>RenderCancelled\<close> differ in the message only: the payload's
  \<open>errorMessage\<close> (or \<open>Unknown error\<close>) for the first, a fixed text for the second.
\<close>

definition failRenderJob :: "jsval \<Rightarrow> json \<Rightarrow> nat \<Rightarrow> cstate \<Rightarrow> cstate" where
  "failRenderJob jobId message now st =
     (if renderJob st \<noteq> None \<or> truthyV jobId then
        st\<lparr>renderJob := Some
          \<lparr>job_id = jsOrLit (jsOr jobId (jobIdOf (renderJob st))) (renderId now),
           sequenceId = jsOrLit (jobSequenceIdOf (renderJob st)) (JStr ''unknown''),
           status = failed,
           progress = jsOrLit (jobProgressOf (renderJob st)) (JNum 0),
           downloadUrl = None,
           errorMessage = Some message\<rparr>\<rparr>
      else st)"

definition onRenderFailed :: "(string \<Rightarrow> json option) \<Rightarrow> nat \<Rightarrow> json \<Rightarrow> cstate \<Rightarrow> cstate" where
  "onRenderFailed P now event st =
     (let parsedData = parseRenderData P event
      in failRenderJob (jsOr (propV ''jobId'' parsedData) (jobIdOf (renderJob st)))
           (jsOrLit (propV ''errorMessage'' parsedData) (JStr ''Unknown error'')) now st)"

definition onRenderCancelled :: "(string \<Rightarrow> json option) \<Rightarrow> nat \<Rightarrow> json \<Rightarrow> cstate \<Rightarrow> cstate" where
  "onRenderCancelled P now event st =
     (let parsedData = parseRenderData P event
      in failRenderJob (jsOr (propV ''jobId'' parsedData) (jobIdOf (renderJob st)))
           (JStr ''Render cancelled by user'') now st)"

definition handleUEResponse ::
  "(string \<Rightarrow> json option) \<Rightarrow> bool \<Rightarrow> nat \<Rightarrow> registry \<Rightarrow> json \<Rightarrow> cstate \<Rightarrow> cstate" where
  "handleUEResponse P heldReady now r event st =
     (if isAction event ''Car'' ''LoadById'' then onCarLoadById r event st
      else if isAction event ''Car'' ''SetColor'' then st
      else if isAction event ''Car'' ''SetWheel'' then st
      else if isAction event ''Environment'' ''ChangeBackground'' then onChangeBackground heldReady event st
      else if isAction event ''Environment'' ''ChangeDayNight'' then onChangeDayNight event st
      else if isAction event ''System'' ''TakeScreenshot''
        then onTakeScreenshot ''screenshot-'' now event st
      else if isAction event ''System'' ''TakeScreenshotNoBackground''
        then onTakeScreenshot ''screenshot-nobg-'' now event st
      else if isAction event ''Sequence'' ''GetSequences'' then onGetSequences P event st
      else if isAction event ''Sequence'' ''PlaySequence'' then onPlaySequence event st
      else if isAction event ''Sequence'' ''StopSequence'' then onStopSequence event st
      else if isAction event ''Sequence'' ''SequenceFinished'' then onSequenceFinished st
      else if isAction event ''Render'' ''RenderStarted'' then onRenderStarted P now event st
      else if isAction event ''Render'' ''RenderProgress'' then onRenderProgress P now event st
      else if isAction event ''Render'' ''RenderComplete'' then onRenderComplete P now event st
      else if isAction event ''Render'' ''RenderFailed'' then onRenderFailed P now event st
      else if isAction event ''Render'' ''RenderCancelled'' then onRenderCancelled P now event st
      else st)"

text \<open>
  The listener of the \<open>Info\<close> channel. \<open>JSON.parse\<close> may throw, and so does reading
  \<open>ns\<close> of \<open>null\<close>; the \<open>catch\<close> block logs the error and the message is dropped.
\<close>

definition infoListener ::
  "(string \<Rightarrow> json option) \<Rightarrow> bool \<Rightarrow> nat \<Rightarrow> registry \<Rightarrow> string \<Rightarrow> cstate \<Rightarrow> cstate" where
  "infoListener P heldReady now r response st =
     (case P response of
        None \<Rightarrow> st
      | Some event \<Rightarrow>
          if event = JNull then st
          else if getProp ''ns'' event = Some (JStr ''Configurator'')
            then handleUEResponse P heldReady now r event st
          else st)"

subsection \<open>The selection queue\<close>

text \<open>
  The updater functions given to \<open>setSelectedSequences\<close>, and the handlers that apply
  them. \<open>spliceStart\<close> is the position \<open>Array.prototype.splice\<close> works at for a
  start index and an array length: a negative index counts from the end, and the
  position is clamped to the array.
\<close>

definition toggleSequence :: "'a \<Rightarrow> 'a list \<Rightarrow> 'a list" where
  "toggleSequence seqId prev =
     (if seqId \<in> set prev then filter (\<lambda>i. i \<noteq> seqId) prev
      else prev @ [seqId])"

definition spliceStart :: "int \<Rightarrow> nat \<Rightarrow> nat" where
  "spliceStart i len = (if i < 0 then nat (max (int len + i) 0) else min (nat i) len)"

definition reorderSequence :: "int \<Rightarrow> int \<Rightarrow> 'a option list \<Rightarrow> 'a option list" where
  "reorderSequence fromIndex toIndex prev =
     (let s = spliceStart fromIndex (length prev);
          removed = take 1 (drop s prev);
          newList = take s prev @ drop (s + 1) prev;
          moved = (case removed of [] \<Rightarrow> None | m # ms \<Rightarrow> m);
          t = spliceStart toIndex (length newList)
      in take t newList @ [moved] @ drop t newList)"

definition handleToggleSequence :: "string \<Rightarrow> cstate \<Rightarrow> cstate" where
  "handleToggleSequence seqId st =
     st\<lparr>selectedSequences := toggleSequence (Some seqId) (selectedSequences st)\<rparr>"

definition handleReorderSequence :: "int \<Rightarrow> int \<Rightarrow> cstate \<Rightarrow> cstate" where
  "handleReorderSequence fromIndex toIndex st =
     st\<lparr>selectedSequences := reorderSequence fromIndex toIndex (selectedSequences st)\<rparr>"

subsection \<open>Render request and cancellation\<close>

text \<open>\<open>join(',')\<close>: an \<open>undefined\<close> slot gives the empty string.\<close>

fun joinComma :: "string option list \<Rightarrow> string" where
  "joinComma [] = []"
| "joinComma [x] = (case x of None \<Rightarrow> [] | Some s \<Rightarrow> s)"
| "joinComma (x # y # ys) = (case x of None \<Rightarrow> [] | Some s \<Rightarrow> s) @ '','' @ joinComma (y # ys)"

definition isRendering :: "RenderJob option \<Rightarrow> bool" where
  "isRendering j = (case j of None \<Rightarrow> False | Some job \<Rightarrow> status job = rendering)"

definition handleRenderSequence :: "registry \<Rightarrow> cstate \<Rightarrow> cstate" where
  "handleRenderSequence r st =
     (if \<not> isReady st \<or> length (selectedSequences st) = 0 \<or> isRendering (renderJob st) then st
      else
        case getPS r of
          None \<Rightarrow> st
        | Some ps \<Rightarrow>
            let st1 =
                  (if isPlaying st
                   then (emitUIInteraction ps stopSequenceCommand st)\<lparr>isPlaying := False\<rparr>
                   else st)
            in setTimeout (RenderTask ps (selectedSequences st)) (if isPlaying st then 200 else 0) st1)"

definition handleCancelRender :: "(json \<Rightarrow> string) \<Rightarrow> registry \<Rightarrow> cstate \<Rightarrow> cstate" where
  "handleCancelRender S r st =
     (if \<not> isReady st then st
      else
        case renderJob st of
          None \<Rightarrow> st
        | Some job \<Rightarrow>
            if status job \<noteq> rendering then st
            else
              (case getPS r of
                 None \<Rightarrow> st
               | Some ps \<Rightarrow>
                   (emitUIInteraction ps (cancelRenderCommand S (job_id job)) st)
                     \<lparr>renderJob := Some
                        (job\<lparr>status := failed,
                             errorMessage := Some (JStr ''Render cancelled by user'')\<rparr>)\<rparr>))"

subsection \<open>Timers\<close>

text \<open>
  What each callback does when its timer fires at time \<open>now\<close>, and the firing of the
  pending timer at position \<open>i\<close>.
\<close>

definition runTask :: "nat \<Rightarrow> registry \<Rightarrow> task \<Rightarrow> cstate \<Rightarrow> cstate" where
  "runTask now r t st =
     (case t of
        SetCloudflareURLTask ps wsUrl cid \<Rightarrow>
          emitUIInteraction ps (setCloudflareURLCommand wsUrl cid) st
      | LoadSequencesTask ready cid \<Rightarrow> loadSequencesForCurrentLevel ready cid r st
      | RenderTask ps ids \<Rightarrow>
          emitUIInteraction ps (renderSequenceListCommand ids)
            (st\<lparr>renderJob := Some
                 \<lparr>job_id = renderId now,
                  sequenceId = JStr (joinComma ids),
                  status = rendering,
                  progress = JNum 0,
                  downloadUrl = None,
                  errorMessage = None\<rparr>\<rparr>))"

definition fireTimer :: "nat \<Rightarrow> registry \<Rightarrow> nat \<Rightarrow> cstate \<Rightarrow> cstate" where
  "fireTimer now r i st =
     (if i < length (timers st)
      then runTask now r (snd (timers st ! i))
             (st\<lparr>timers := take i (timers st) @ drop (Suc i) (timers st)\<rparr>)
      else st)"

section \<open>Notions used in the statements\<close>

text \<open>
  The first truthy value of a list of candidates, else the default: the reading of
  "fixed priority order, with defaults" that the normalization is compared with.
\<close>

fun firstTruthy :: "jsval list \<Rightarrow> json \<Rightarrow> json" where
  "firstTruthy [] d = d"
| "firstTruthy (None # vs) d = firstTruthy vs d"
| "firstTruthy (Some x # vs) d = (if truthy x then x else firstTruthy vs d)"

text \<open>
  The entry a raw sequence is to give: each field the first truthy candidate in its
  order, else its default.
\<close>

definition normalized :: "json \<Rightarrow> SequenceInfo" where
  "normalized sq =
     \<lparr>seq_id =
        firstTruthy [getProp ''sequenceId'' sq, getProp ''id'' sq, getProp ''SequenceId'' sq]
          (JStr ''unknown''),
      seq_name =
        firstTruthy [getProp ''displayName'' sq, getProp ''name'' sq,
                     getProp ''DisplayName'' sq, getProp ''sequenceId'' sq]
          (JStr ''Unnamed Sequence''),
      category =
        firstTruthy [getProp ''category'' sq, getProp ''Category'' sq] (JStr ''Exterior''),
      duration =
        firstTruthy [getProp ''duration'' sq, getProp ''Duration'' sq] (JNum 10),
      thumbnail =
        jsOr (jsOr (getProp ''thumbnailPath'' sq) (getProp ''ThumbnailPath'' sq))
          (getProp ''thumbnail'' sq)\<rparr>"

text \<open>The tracked render job, if any, has a truthy id.\<close>

definition jobIdOk :: "cstate \<Rightarrow> bool" where
  "jobIdOk st = (case renderJob st of None \<Rightarrow> True | Some job \<Rightarrow> truthy (job_id job))"

section \<open>Concrete inputs\<close>

text \<open>The state the component starts in (the initial values of its \<open>useState\<close> calls).\<close>

definition initialState :: "string \<Rightarrow> cstate" where
  "initialState cid =
     \<lparr>carId = cid, webSocketUrl = None, mode = photo, isReady = False, isCarLoaded = False,
      selectedColorId = None, selectedWheelId = None,
      selectedBackground =
        \<lparr>bg_id = ''Studio_White'', bg_name = ''Studio'',
         dayImage = ''/images/backgrounds/white_studio.jpg'',
         nightImage = ''/images/backgrounds/white_studio.jpg''\<rparr>,
      isDayMode = JBool True, screenshots = [], sequences = [], isLoadingSequences = False,
      selectedSequences = [], isPlaying = False, renderJob = None, sent = [], timers = []\<rparr>"

text \<open>
  A registry in which session 1 was registered and has fired \<open>webRtcConnected\<close>; a
  \<open>disconnect\<close> that returns and one that throws.
\<close>

definition quietDisconnect :: "handle \<Rightarrow> string option" where
  "quietDisconnect h = None"

definition failingDisconnect :: "handle \<Rightarrow> string option" where
  "failingDisconnect h = Some ''InvalidStateError''"

definition connectedRegistry :: registry where
  "connectedRegistry =
     fireEvent (fst (registerPS quietDisconnect (Some 1) initialRegistry)) (1, ''webRtcConnected'')"

text \<open>
  Video mode with two sequences queued and playing; the same with a render job under
  way.
\<close>

definition playingState :: cstate where
  "playingState =
     (initialState ''DA_CarModel_Genesis_GV70_2025'')
       \<lparr>mode := video, isReady := True, isCarLoaded := True,
        selectedSequences := [Some ''Seq_Orbit'', Some ''Seq_Interior'', Some ''Seq_Front''],
        isPlaying := True\<rparr>"

definition trackedJob :: RenderJob where
  "trackedJob =
     \<lparr>job_id = JStr ''job-7'', sequenceId = JStr ''Seq_Orbit,Seq_Interior'', status = rendering,
      progress = JNum 40, downloadUrl = None, errorMessage = None\<rparr>"

definition renderingState :: cstate where
  "renderingState = playingState\<lparr>isPlaying := False, renderJob := Some trackedJob\<rparr>"

text \<open>
  Messages of the engine and what \<open>JSON.parse\<close> returns on them; \<open>sampleParse\<close> knows
  these texts only and throws on every other one. \<open>sampleStringify\<close> is
  \<open>JSON.stringify\<close> on an object with one string property whose text needs no escape.
\<close>

definition otherNamespaceMessage :: string where
  \<open>otherNamespaceMessage = ''{"ns":"Telemetry","type":"Car","action":"LoadById","status":"OK"}''\<close>

definition loadConfirmationMessage :: string where
  \<open>loadConfirmationMessage =
     ''{"ns":"Configurator","type":"Car","action":"LoadById","status":"OK","value":"DA_CarModel_Genesis_GV70_2025"}''\<close>

definition sequencesText :: string where
  \<open>sequencesText =
     ''{"sequences":[{"SequenceId":"a","DisplayName":"A","Category":"Interior","Duration":5}]}''\<close>

definition progressText :: string where
  \<open>progressText = ''{"progress":55}''\<close>

definition rawSequenceA :: json where
  "rawSequenceA =
     JObj [(''SequenceId'', JStr ''a''), (''DisplayName'', JStr ''A''),
           (''Category'', JStr ''Interior''), (''Duration'', JNum 5)]"

definition sampleParse :: "string \<Rightarrow> json option" where
  "sampleParse s =
     (if s = otherNamespaceMessage then
        Some (JObj [(''ns'', JStr ''Telemetry''), (''type'', JStr ''Car''),
                    (''action'', JStr ''LoadById''), (''status'', JStr ''OK'')])
      else if s = loadConfirmationMessage then
        Some (JObj [(''ns'', JStr ''Configurator''), (''type'', JStr ''Car''),
                    (''action'', JStr ''LoadById''), (''status'', JStr ''OK''),
                    (''value'', JStr ''DA_CarModel_Genesis_GV70_2025'')])
      else if s = sequencesText then Some (JObj [(''sequences'', JArr [rawSequenceA])])
      else if s = progressText then Some (JObj [(''progress'', JNum 55)])
      else None)"

definition sampleStringify :: "json \<Rightarrow> string" where
  \<open>sampleStringify v =
     (case v of
        JObj [(k, JStr x)] \<Rightarrow> ''{"'' @ k @ ''":"'' @ x @ ''"}''
      | _ \<Rightarrow> ''null'')\<close>

definition getSequencesResponse :: json where
  "getSequencesResponse =
     JObj [(''ns'', JStr ''Configurator''), (''type'', JStr ''Sequence''),
           (''action'', JStr ''GetSequences''), (''status'', JStr ''OK''),
           (''data'', JStr sequencesText)]"

definition twoSequencesResponse :: json where
  "twoSequencesResponse =
     JObj [(''ns'', JStr ''Configurator''), (''type'', JStr ''Sequence''),
           (''action'', JStr ''GetSequences''), (''status'', JStr ''OK''),
           (''data'', JObj [(''sequences'', JArr [rawSequenceA, JObj [(''id'', JStr ''b'')]])])]"

definition nullElementResponse :: json where
  "nullElementResponse =
     JObj [(''ns'', JStr ''Configurator''), (''type'', JStr ''Sequence''),
           (''action'', JStr ''GetSequences''), (''status'', JStr ''OK''),
           (''data'', JObj [(''sequences'', JArr [rawSequenceA, JNull])])]"

definition progressEvent :: json where
  "progressEvent =
     JObj [(''ns'', JStr ''Configurator''), (''type'', JStr ''Render''),
           (''action'', JStr ''RenderProgress''), (''data'', JStr progressText)]"

definition bareProgressEvent :: json where
  "bareProgressEvent =
     JObj [(''ns'', JStr ''Configurator''), (''type'', JStr ''Render''),
           (''action'', JStr ''RenderProgress'')]"

section \<open>The connection registry: replacement and readiness\<close>

lemmas stmt_defs =
  seq_def tryCatch_def callDisconnect_def consoleWarn_def assignGlobal_def
  addEventListener_def resetFlags_def skip_def

lemma registerPS_result:
  "isWebSocketConnected (fst (registerPS D ps r)) = False"
  "isVideoStreamActive (fst (registerPS D ps r)) = False"
  "globalPixelStreaming (fst (registerPS D ps r)) = ps"
  "snd (registerPS D ps r) = None"
  by (simp_all add: registerPS_def stmt_defs split: option.splits)

lemma registerPS_listeners:
  "listeners (fst (registerPS D ps r)) = listeners r @
     (case ps of
        None \<Rightarrow> []
      | Some h \<Rightarrow>
          [(h, ''webRtcConnected'', SetWebSocketConnected True),
           (h, ''webRtcDisconnected'', SetWebSocketConnected False),
           (h, ''videoInitialized'', SetVideoStreamActive True),
           (h, ''videoEncoderAvgQP'', SetVideoStreamActive True)])"
  by (simp add: registerPS_def stmt_defs split: option.splits)

lemma registerPS_listenersOk: "listenersOk r \<Longrightarrow> listenersOk (fst (registerPS D ps r))"
  by (simp add: listenersOk_def registerPS_listeners split: option.splits)

lemma runListeners_listeners: "listeners (foldl runListener r bs) = listeners r"
  by (induction bs arbitrary: r) (simp_all add: runListener_def split: listenerBody.splits)

lemma runListeners_stay_disconnected:
  "\<not> isWebSocketConnected r \<Longrightarrow> SetWebSocketConnected True \<notin> set bs \<Longrightarrow>
   \<not> isWebSocketConnected (foldl runListener r bs)"
proof (induction bs arbitrary: r)
  case Nil
  then show ?case by simp
next
  case (Cons b bs)
  have "\<not> isWebSocketConnected (runListener r b)"
    using Cons.prems by (cases b) (auto simp add: runListener_def)
  then show ?case using Cons by simp
qed

lemma fireEvent_listenersOk: "listenersOk r \<Longrightarrow> listenersOk (fireEvent r ev)"
  by (simp add: listenersOk_def fireEvent_def runListeners_listeners)

lemma fireEvent_stays_disconnected:
  assumes "listenersOk r" and "\<not> isWebSocketConnected r" and "snd ev \<noteq> ''webRtcConnected''"
  shows "\<not> isWebSocketConnected (fireEvent r ev)"
  unfolding fireEvent_def
proof (rule runListeners_stay_disconnected [OF assms(2)])
  show "SetWebSocketConnected True \<notin>
          set (map (\<lambda>(h, name, body). body)
                 (filter (\<lambda>(h, name, body). (h, name) = ev) (listeners r)))"
    using assms(1,3) by (auto simp add: listenersOk_def list_all_iff)
qed

lemma fireEvents_stay_disconnected:
  "listenersOk r \<Longrightarrow> \<not> isWebSocketConnected r \<Longrightarrow>
   \<forall>ev \<in> set evs. snd ev \<noteq> ''webRtcConnected'' \<Longrightarrow>
   \<not> isWebSocketConnected (foldl fireEvent r evs)"
  by (induction evs arbitrary: r) (simp_all add: fireEvent_listenersOk fireEvent_stays_disconnected)

lemma initialRegistry_listenersOk: "listenersOk initialRegistry"
  by (simp add: listenersOk_def initialRegistry_def)

lemma connectedRegistry_fields:
  "globalPixelStreaming connectedRegistry = Some 1"
  "isWebSocketConnected connectedRegistry"
  "listenersOk connectedRegistry"
  by (simp_all add: connectedRegistry_def fireEvent_def registerPS_listeners runListener_def
        runListeners_listeners registerPS_result initialRegistry_def listenersOk_def)

text \<open>
  C5. Registering a session different from the one held calls \<open>disconnect\<close> on the old
  session exactly once, before the new session is assigned to the global; whether or not
  that call throws, \<open>registerPS\<close> returns normally (the error is logged by the catch
  block) with the new session installed.
\<close>

theorem registerPS_disconnects_old_once:
  assumes "globalPixelStreaming r = Some old" and "old \<noteq> new"
  shows "snd (registerPS D (Some new) r) = None \<and>
         globalPixelStreaming (fst (registerPS D (Some new) r)) = Some new \<and>
         steps (fst (registerPS D (Some new) r)) =
           steps r @ [DisconnectCalled old]
             @ (case D old of None \<Rightarrow> [] | Some e \<Rightarrow> [ConsoleWarn e])
             @ [GlobalAssigned (Some new)]
             @ map (ListenerAdded new)
                 [''webRtcConnected'', ''webRtcDisconnected'', ''videoInitialized'',
                  ''videoEncoderAvgQP'']"
  using assms by (simp add: registerPS_def stmt_defs split: option.splits)

theorem registerPS_disconnects_old_once_witness:
  "globalPixelStreaming connectedRegistry = Some 1 \<and> (1::nat) \<noteq> 2 \<and>
   snd (registerPS failingDisconnect (Some 2) connectedRegistry) = None \<and>
   globalPixelStreaming (fst (registerPS failingDisconnect (Some 2) connectedRegistry)) = Some 2 \<and>
   steps (fst (registerPS failingDisconnect (Some 2) connectedRegistry)) =
     steps connectedRegistry @
       [DisconnectCalled 1, ConsoleWarn ''InvalidStateError'', GlobalAssigned (Some 2),
        ListenerAdded 2 ''webRtcConnected'', ListenerAdded 2 ''webRtcDisconnected'',
        ListenerAdded 2 ''videoInitialized'', ListenerAdded 2 ''videoEncoderAvgQP'']"
proof -
  have held: "globalPixelStreaming connectedRegistry = Some 1"
    by (rule connectedRegistry_fields)
  have other: "(1::nat) \<noteq> 2" by simp
  show ?thesis
    using registerPS_disconnects_old_once [OF held other, of failingDisconnect] held
    by (simp add: failingDisconnect_def)
qed

text \<open>
  C10. After any call of \<open>registerPS\<close> (whatever session or \<open>null\<close> is registered,
  whatever the registry held before) both connectivity flags are false and \<open>isPSReady\<close>
  is false; and it stays false over any run of session events none of which is
  \<open>webRtcConnected\<close>. The last part is for a registry whose callbacks were installed
  by \<open>registerPS\<close>.
\<close>

theorem registerPS_resets_readiness:
  "\<not> isWebSocketConnected (fst (registerPS D ps r)) \<and>
   \<not> isVideoStreamActive (fst (registerPS D ps r)) \<and>
   \<not> isPSReady (fst (registerPS D ps r)) \<and>
   (listenersOk r \<longrightarrow>
      (\<forall>evs. (\<forall>ev \<in> set evs. snd ev \<noteq> ''webRtcConnected'') \<longrightarrow>
         \<not> isPSReady (foldl fireEvent (fst (registerPS D ps r)) evs)))"
  using fireEvents_stay_disconnected [OF registerPS_listenersOk, of r D ps]
  by (simp add: registerPS_result isPSReady_def)

theorem registerPS_resets_readiness_witness:
  "isPSReady connectedRegistry \<and> listenersOk connectedRegistry \<and>
   \<not> isWebSocketConnected (fst (registerPS quietDisconnect (Some 1) connectedRegistry)) \<and>
   \<not> isVideoStreamActive (fst (registerPS quietDisconnect (Some 1) connectedRegistry)) \<and>
   \<not> isPSReady (fst (registerPS quietDisconnect (Some 1) connectedRegistry)) \<and>
   \<not> isPSReady
       (foldl fireEvent (fst (registerPS quietDisconnect (Some 1) connectedRegistry))
          [(1, ''videoInitialized''), (1, ''webRtcDisconnected'')])"
proof -
  have ok: "listenersOk connectedRegistry"
    by (rule connectedRegistry_fields)
  have ready: "isPSReady connectedRegistry"
    by (simp add: isPSReady_def connectedRegistry_fields)
  have names: "\<forall>ev \<in> set [(1::nat, ''videoInitialized''), (1, ''webRtcDisconnected'')].
                 snd ev \<noteq> ''webRtcConnected''"
    by simp
  show ?thesis
    using registerPS_resets_readiness [of quietDisconnect "Some 1" connectedRegistry] ok ready names
    by blast
qed

section \<open>The selection queue: toggling and reordering\<close>

lemma toggleSequence_twice_absent:
  "x \<notin> set q \<Longrightarrow> toggleSequence x (toggleSequence x q) = q"
  by (auto simp add: toggleSequence_def filter_id_conv)

lemma toggleSequence_twice_present:
  "x \<in> set q \<Longrightarrow> toggleSequence x (toggleSequence x q) = filter (\<lambda>i. i \<noteq> x) q @ [x]"
  by (simp add: toggleSequence_def)

lemma toggleSequence_twice_set: "set (toggleSequence x (toggleSequence x q)) = set q"
proof (cases "x \<in> set q")
  case True
  then show ?thesis by (auto simp add: toggleSequence_twice_present)
next
  case False
  then show ?thesis by (simp add: toggleSequence_twice_absent)
qed

text \<open>
  C8. Toggling a sequence id twice leaves the id present exactly if it was present
  before and leaves the set of queued ids as it was; when the id was absent, the whole
  state, and so the exact queue, is restored.
\<close>

theorem handleToggleSequence_twice:
  "(Some s \<in> set (selectedSequences (handleToggleSequence s (handleToggleSequence s st)))
      \<longleftrightarrow> Some s \<in> set (selectedSequences st)) \<and>
   set (selectedSequences (handleToggleSequence s (handleToggleSequence s st)))
      = set (selectedSequences st) \<and>
   (Some s \<notin> set (selectedSequences st) \<longrightarrow>
      handleToggleSequence s (handleToggleSequence s st) = st)"
  by (simp add: handleToggleSequence_def toggleSequence_twice_set toggleSequence_twice_absent)

theorem handleToggleSequence_twice_witness:
  "Some ''Seq_Rear'' \<notin> set (selectedSequences playingState) \<and>
   handleToggleSequence ''Seq_Rear'' (handleToggleSequence ''Seq_Rear'' playingState) = playingState \<and>
   selectedSequences (handleToggleSequence ''Seq_Orbit'' (handleToggleSequence ''Seq_Orbit'' playingState))
     = [Some ''Seq_Interior'', Some ''Seq_Front'', Some ''Seq_Orbit'']"
proof -
  have absent: "Some ''Seq_Rear'' \<notin> set (selectedSequences playingState)"
    by (simp add: playingState_def initialState_def)
  have moved:
    "selectedSequences (handleToggleSequence ''Seq_Orbit'' (handleToggleSequence ''Seq_Orbit'' playingState))
       = [Some ''Seq_Interior'', Some ''Seq_Front'', Some ''Seq_Orbit'']"
    by (simp add: handleToggleSequence_def toggleSequence_def playingState_def initialState_def)
  show ?thesis
    using handleToggleSequence_twice [of "''Seq_Rear''" playingState] absent moved
    by blast
qed

lemma spliceStart_nat: "i \<le> n \<Longrightarrow> spliceStart (int i) n = i"
  by (simp add: spliceStart_def)

lemma reorderSequence_nat:
  assumes "i < length q" and "j < length q"
  shows "reorderSequence (int i) (int j) q =
           take j (take i q @ drop (Suc i) q) @ [q ! i] @ drop j (take i q @ drop (Suc i) q)"
proof -
  have a: "spliceStart (int i) (length q) = i"
    using assms by (simp add: spliceStart_nat)
  have r: "take 1 (drop i q) = [q ! i]"
    using assms by (simp add: take_Suc_conv_app_nth)
  have l: "length (take i q @ drop (Suc i) q) = length q - 1"
    using assms by simp
  have b: "spliceStart (int j) (length q - 1) = j"
    using assms by (simp add: spliceStart_nat)
  show ?thesis
    unfolding reorderSequence_def Let_def a Suc_eq_plus1 [symmetric] l r b
    by simp
qed

lemma insert_then_remove:
  assumes "j \<le> length m"
  shows "take j (take j m @ [x] @ drop j m) = take j m"
    and "drop (Suc j) (take j m @ [x] @ drop j m) = drop j m"
    and "(take j m @ [x] @ drop j m) ! j = x"
  using assms by (simp_all add: nth_append)

lemma reorderSequence_roundtrip_nat:
  assumes "i < length q" and "j < length q"
  shows "reorderSequence (int j) (int i) (reorderSequence (int i) (int j) q) = q"
proof -
  define m where "m = take i q @ drop (Suc i) q"
  define q1 where "q1 = take j m @ [q ! i] @ drop j m"
  have jm: "j \<le> length m" using assms by (simp add: m_def)
  have q1: "reorderSequence (int i) (int j) q = q1"
    using assms by (simp add: reorderSequence_nat q1_def m_def)
  have len1: "length q1 = length q" using assms by (simp add: q1_def m_def)
  have rmv: "take j q1 @ drop (Suc j) q1 = m" and nth: "q1 ! j = q ! i"
    using insert_then_remove [OF jm, of "q ! i"] by (simp_all add: q1_def)
  have "reorderSequence (int j) (int i) q1 =
          take i (take j q1 @ drop (Suc j) q1) @ [q1 ! j] @ drop i (take j q1 @ drop (Suc j) q1)"
    using assms len1 by (intro reorderSequence_nat) simp_all
  also have "\<dots> = take i m @ [q ! i] @ drop i m"
    by (simp only: rmv nth)
  also have "\<dots> = take i q @ [q ! i] @ drop (Suc i) q"
    using assms by (simp add: m_def)
  also have "\<dots> = q"
    using assms by (simp add: id_take_nth_drop [symmetric])
  finally show ?thesis unfolding q1 .
qed

text \<open>
  C9. For indices \<open>i\<close> and \<open>j\<close> inside the queue, moving the element at \<open>i\<close> to
  \<open>j\<close> and then the element at \<open>j\<close> to \<open>i\<close> gives back the state, and so the
  queue order, exactly.
\<close>

theorem handleReorderSequence_roundtrip:
  assumes "0 \<le> i" and "i < int (length (selectedSequences st))"
      and "0 \<le> j" and "j < int (length (selectedSequences st))"
  shows "handleReorderSequence j i (handleReorderSequence i j st) = st"
proof -
  have "reorderSequence (int (nat j)) (int (nat i))
          (reorderSequence (int (nat i)) (int (nat j)) (selectedSequences st))
        = selectedSequences st"
    using assms by (intro reorderSequence_roundtrip_nat) simp_all
  then show ?thesis using assms by (simp add: handleReorderSequence_def)
qed

theorem handleReorderSequence_roundtrip_witness:
  "(0::int) \<le> 0 \<and> 0 < int (length (selectedSequences playingState)) \<and>
   (0::int) \<le> 2 \<and> 2 < int (length (selectedSequences playingState)) \<and>
   selectedSequences (handleReorderSequence 0 2 playingState)
     = [Some ''Seq_Interior'', Some ''Seq_Front'', Some ''Seq_Orbit''] \<and>
   handleReorderSequence 2 0 (handleReorderSequence 0 2 playingState) = playingState"
proof -
  have len: "length (selectedSequences playingState) = 3"
    by (simp add: playingState_def initialState_def)
  have h1: "(0::int) \<le> 0" and h3: "(0::int) \<le> 2" by simp_all
  have h2: "0 < int (length (selectedSequences playingState))"
   and h4: "2 < int (length (selectedSequences playingState))"
    by (simp_all add: len)
  have once: "selectedSequences (handleReorderSequence 0 2 playingState)
     = [Some ''Seq_Interior'', Some ''Seq_Front'', Some ''Seq_Orbit'']"
    by (simp add: handleReorderSequence_def reorderSequence_def spliceStart_def
          playingState_def initialState_def)
  show ?thesis
    using handleReorderSequence_roundtrip [OF h1 h2 h3 h4] h2 h4 once
    by simp
qed

section \<open>The response listener and handler\<close>

lemma sampleParse_values:
  "sampleParse otherNamespaceMessage =
     Some (JObj [(''ns'', JStr ''Telemetry''), (''type'', JStr ''Car''),
                 (''action'', JStr ''LoadById''), (''status'', JStr ''OK'')])"
  "sampleParse loadConfirmationMessage =
     Some (JObj [(''ns'', JStr ''Configurator''), (''type'', JStr ''Car''),
                 (''action'', JStr ''LoadById''), (''status'', JStr ''OK''),
                 (''value'', JStr ''DA_CarModel_Genesis_GV70_2025'')])"
  "sampleParse sequencesText = Some (JObj [(''sequences'', JArr [rawSequenceA])])"
  "sampleParse progressText = Some (JObj [(''progress'', JNum 55)])"
  by (simp_all add: sampleParse_def otherNamespaceMessage_def loadConfirmationMessage_def
        sequencesText_def progressText_def)

text \<open>
  C1. A message of the \<open>Info\<close> channel whose parsed envelope has an \<open>ns\<close> other than
  the string \<open>Configurator\<close>, or none, leaves the whole state of the component as it
  was: every piece of workflow state, the commands sent and the pending timers.
\<close>

theorem infoListener_ignores_other_namespaces:
  assumes "P response = Some event"
      and "getProp ''ns'' event \<noteq> Some (JStr ''Configurator'')"
  shows "infoListener P heldReady now r response st = st"
  using assms by (simp add: infoListener_def)

theorem infoListener_ignores_other_namespaces_witness:
  "sampleParse otherNamespaceMessage =
     Some (JObj [(''ns'', JStr ''Telemetry''), (''type'', JStr ''Car''),
                 (''action'', JStr ''LoadById''), (''status'', JStr ''OK'')]) \<and>
   getProp ''ns'' (JObj [(''ns'', JStr ''Telemetry''), (''type'', JStr ''Car''),
                        (''action'', JStr ''LoadById''), (''status'', JStr ''OK'')])
     \<noteq> Some (JStr ''Configurator'') \<and>
   infoListener sampleParse True 1700000000000 connectedRegistry otherNamespaceMessage
     (carIdChanged ''DA_CarModel_BMW_X5'' playingState)
   = carIdChanged ''DA_CarModel_BMW_X5'' playingState"
proof -
  have parsed: "sampleParse otherNamespaceMessage =
     Some (JObj [(''ns'', JStr ''Telemetry''), (''type'', JStr ''Car''),
                 (''action'', JStr ''LoadById''), (''status'', JStr ''OK'')])"
    by (rule sampleParse_values)
  have ns: "getProp ''ns'' (JObj [(''ns'', JStr ''Telemetry''), (''type'', JStr ''Car''),
                        (''action'', JStr ''LoadById''), (''status'', JStr ''OK'')])
     \<noteq> Some (JStr ''Configurator'')"
    by simp
  show ?thesis
    using infoListener_ignores_other_namespaces
            [where P = sampleParse and response = otherNamespaceMessage and heldReady = True
               and now = 1700000000000 and r = connectedRegistry
               and st = "carIdChanged ''DA_CarModel_BMW_X5'' playingState"]
          parsed ns
    by simp
qed

lemma handleUEResponse_LoadById:
  "isAction event ''Car'' ''LoadById'' \<Longrightarrow>
   handleUEResponse P heldReady now r event st = onCarLoadById r event st"
  by (simp add: handleUEResponse_def)

text \<open>
  C2, as stated, fails. In the run below the page asks the engine to load the first car,
  another car is selected (the flag is reset and the load command for the new car goes
  out), and then the late confirmation for the first car arrives: it marks the newly
  selected car as loaded.
\<close>

theorem late_confirmation_marks_new_car_loaded:
  "sent (checkConnection connectedRegistry
           (carIdChanged ''DA_CarModel_BMW_X5''
              (checkConnection connectedRegistry (initialState ''DA_CarModel_Genesis_GV70_2025''))))
     = [(1, loadByIdCommand ''DA_CarModel_Genesis_GV70_2025''),
        (1, loadByIdCommand ''DA_CarModel_BMW_X5'')] \<and>
   carId (checkConnection connectedRegistry
           (carIdChanged ''DA_CarModel_BMW_X5''
              (checkConnection connectedRegistry (initialState ''DA_CarModel_Genesis_GV70_2025''))))
     = ''DA_CarModel_BMW_X5'' \<and>
   \<not> isCarLoaded
       (checkConnection connectedRegistry
          (carIdChanged ''DA_CarModel_BMW_X5''
             (checkConnection connectedRegistry (initialState ''DA_CarModel_Genesis_GV70_2025'')))) \<and>
   isCarLoaded
     (infoListener sampleParse True 1700000000000 connectedRegistry loadConfirmationMessage
        (checkConnection connectedRegistry
           (carIdChanged ''DA_CarModel_BMW_X5''
              (checkConnection connectedRegistry (initialState ''DA_CarModel_Genesis_GV70_2025'')))))"
  by (simp add: infoListener_def sampleParse_values handleUEResponse_LoadById isAction_def
        onCarLoadById_def statusOK_def carIdChanged_def checkConnection_def isPSReady_def
        getPS_def connectedRegistry_fields emitUIInteraction_def initialState_def)

text \<open>
  C2, amended. A change of the car id resets the car-load flag; after it, any
  \<open>Car/LoadById\<close> response with status \<open>OK\<close> that is processed sets the flag, whatever
  car the response confirms: a response is not matched against the selected car id.
\<close>

theorem carIdChanged_resets_and_any_confirmation_loads:
  "\<not> isCarLoaded (carIdChanged newId st) \<and>
   carId (carIdChanged newId st) = newId \<and>
   (P response = Some event \<and> getProp ''ns'' event = Some (JStr ''Configurator'') \<and>
    isAction event ''Car'' ''LoadById'' \<and> statusOK event \<longrightarrow>
      isCarLoaded (infoListener P heldReady now r response (carIdChanged newId st)) \<and>
      carId (infoListener P heldReady now r response (carIdChanged newId st)) = newId)"
  by (auto simp add: carIdChanged_def infoListener_def handleUEResponse_LoadById onCarLoadById_def
        setTimeout_def Let_def split: option.splits)

theorem carIdChanged_resets_and_any_confirmation_loads_witness:
  "sampleParse loadConfirmationMessage =
     Some (JObj [(''ns'', JStr ''Configurator''), (''type'', JStr ''Car''),
                 (''action'', JStr ''LoadById''), (''status'', JStr ''OK''),
                 (''value'', JStr ''DA_CarModel_Genesis_GV70_2025'')]) \<and>
   isCarLoaded playingState \<and>
   \<not> isCarLoaded (carIdChanged ''DA_CarModel_BMW_X5'' playingState) \<and>
   isCarLoaded (infoListener sampleParse True 1700000000000 connectedRegistry loadConfirmationMessage
                  (carIdChanged ''DA_CarModel_BMW_X5'' playingState)) \<and>
   carId (infoListener sampleParse True 1700000000000 connectedRegistry loadConfirmationMessage
            (carIdChanged ''DA_CarModel_BMW_X5'' playingState)) = ''DA_CarModel_BMW_X5''"
proof -
  let ?event = "JObj [(''ns'', JStr ''Configurator''), (''type'', JStr ''Car''),
                 (''action'', JStr ''LoadById''), (''status'', JStr ''OK''),
                 (''value'', JStr ''DA_CarModel_Genesis_GV70_2025'')]"
  have parsed: "sampleParse loadConfirmationMessage = Some ?event"
    by (rule sampleParse_values)
  have hyps: "getProp ''ns'' ?event = Some (JStr ''Configurator'') \<and>
              isAction ?event ''Car'' ''LoadById'' \<and> statusOK ?event"
    by (simp add: isAction_def statusOK_def)
  have before: "isCarLoaded playingState"
    by (simp add: playingState_def)
  show ?thesis
    using carIdChanged_resets_and_any_confirmation_loads
            [where newId = "''DA_CarModel_BMW_X5''" and st = playingState and P = sampleParse
               and response = loadConfirmationMessage and event = ?event and heldReady = True
               and now = 1700000000000 and r = connectedRegistry]
          parsed hyps before
    by simp
qed

section \<open>Sequence discovery: normalization\<close>

lemma jsOrLit_jsOr: "jsOrLit (jsOr a b) d = jsOrLit a (jsOrLit b d)"
  by (cases a; cases b) (simp_all add: jsOrLit_def jsOr_def truthyV_def)

lemma firstTruthy_Cons: "firstTruthy (a # vs) d = jsOrLit a (firstTruthy vs d)"
  by (cases a) (simp_all add: jsOrLit_def)

lemma normalizeSequence_normalized:
  "sq \<noteq> JNull \<Longrightarrow> normalizeSequence sq = Inr (normalized sq)"
  by (simp add: normalizeSequence_def normalized_def jsOrLit_jsOr firstTruthy_Cons)

lemma normalizeSequence_null: "normalizeSequence JNull = Inl ''TypeError''"
  by (simp add: normalizeSequence_def)

lemma mapThrow_normalizeSequence:
  "mapThrow normalizeSequence xs =
     (if JNull \<in> set xs then Inl ''TypeError'' else Inr (map normalized xs))"
proof (induction xs)
  case Nil
  show ?case by simp
next
  case (Cons x xs)
  show ?case
  proof (cases "x = JNull")
    case True
    then show ?thesis by (simp add: normalizeSequence_null)
  next
    case False
    then show ?thesis using Cons by (simp add: normalizeSequence_normalized)
  qed
qed

lemma loadSequences_sequences:
  "sequences (loadSequences pd event st) =
     (if JNull \<in> set (findSequencesData pd event) then []
      else map normalized (findSequencesData pd event))"
  by (simp add: loadSequences_def Let_def mapThrow_normalizeSequence)

lemma handleUEResponse_GetSequences:
  "isAction event ''Sequence'' ''GetSequences'' \<Longrightarrow>
   handleUEResponse P heldReady now r event st = onGetSequences P event st"
  by (simp add: handleUEResponse_def isAction_def)

lemma onGetSequences_parsed:
  assumes "statusOK event" and "getProp ''data'' event = Some (JStr s)" and "P s = Some pd"
  shows "sequences (onGetSequences P event st) =
     (if JNull \<in> set (findSequencesData (Some pd) event) then []
      else map normalized (findSequencesData (Some pd) event))"
  using assms by (simp add: onGetSequences_def loadSequences_sequences)

lemma onGetSequences_unparsed:
  assumes "statusOK event" and "getProp ''data'' event = Some (JStr s)" and "P s = None"
  shows "sequences (onGetSequences P event st) = []"
  using assms by (simp add: onGetSequences_def)

lemma onGetSequences_structured:
  assumes "statusOK event" and "\<forall>s. getProp ''data'' event \<noteq> Some (JStr s)"
  shows "sequences (onGetSequences P event st) =
     (if JNull \<in> set (findSequencesData (getProp ''data'' event) event) then []
      else map normalized (findSequencesData (getProp ''data'' event) event))"
proof (cases "getProp ''data'' event")
  case None
  then show ?thesis
    using assms by (simp add: onGetSequences_def loadSequences_sequences)
next
  case (Some d)
  then show ?thesis
    using assms by (cases d) (simp_all add: onGetSequences_def loadSequences_sequences)
qed

lemma onGetSequences_failed:
  "\<not> statusOK event \<Longrightarrow> sequences (onGetSequences P event st) = []"
  by (simp add: onGetSequences_def)

lemma findSequencesData_first_location:
  "getProp ''sequences'' pd = Some (JArr xs) \<Longrightarrow> findSequencesData (Some pd) event = xs"
  by (simp add: findSequencesData_def propV_def truthyV_def isArrayV_def itemsV_def)

lemma isArrayV_truthyV: "isArrayV v \<Longrightarrow> truthyV v"
  by (cases v) (auto simp add: isArrayV_def truthyV_def elim: isArray.elims)

lemma findSequencesData_places:
  "findSequencesData payload event =
      (if isArrayV (propV ''sequences'' payload) then itemsV (propV ''sequences'' payload)
       else if isArrayV (getProp ''sequences'' event) then itemsV (getProp ''sequences'' event)
       else if isArrayV payload then itemsV payload
       else if isArrayV (propV ''sequences'' (getProp ''data'' event))
         then itemsV (propV ''sequences'' (getProp ''data'' event))
       else (case payload of
               Some (JObj kvs) \<Rightarrow> if truthyV (map_of kvs ''sequenceId'') then [JObj kvs] else []
             | _ \<Rightarrow> []))"
proof -
  have last: "(case payload of
                 None \<Rightarrow> []
               | Some pd \<Rightarrow>
                   if truthy pd \<and> typeofObject pd \<and> truthyV (getProp ''sequenceId'' pd) then [pd]
                   else []) =
              (case payload of
                 Some (JObj kvs) \<Rightarrow> if truthyV (map_of kvs ''sequenceId'') then [JObj kvs] else []
               | _ \<Rightarrow> [])"
    by (simp add: truthyV_def split: option.splits json.splits)
  show ?thesis
    unfolding findSequencesData_def last
    by (auto simp add: isArrayV_truthyV)
qed

lemma normalized_rawSequenceA:
  "normalized rawSequenceA =
     \<lparr>seq_id = JStr ''a'', seq_name = JStr ''A'', category = JStr ''Interior'',
      duration = JNum 5, thumbnail = None\<rparr>"
  by (simp add: rawSequenceA_def normalized_def jsOr_def truthyV_def)

lemma discovery_list:
  assumes "isAction event ''Sequence'' ''GetSequences''"
  shows
  "(statusOK event \<and> getProp ''data'' event = Some (JStr s) \<and> P s = Some pd \<longrightarrow>
      sequences (handleUEResponse P heldReady now r event st) =
        (if JNull \<in> set (findSequencesData (Some pd) event) then []
         else map normalized (findSequencesData (Some pd) event))) \<and>
   (statusOK event \<and> (\<forall>t. getProp ''data'' event \<noteq> Some (JStr t)) \<longrightarrow>
      sequences (handleUEResponse P heldReady now r event st) =
        (if JNull \<in> set (findSequencesData (getProp ''data'' event) event) then []
         else map normalized (findSequencesData (getProp ''data'' event) event))) \<and>
   (statusOK event \<and> getProp ''data'' event = Some (JStr s) \<and> P s = None \<longrightarrow>
      sequences (handleUEResponse P heldReady now r event st) = []) \<and>
   (\<not> statusOK event \<longrightarrow> sequences (handleUEResponse P heldReady now r event st) = []) \<and>
   (statusOK event \<and> getProp ''data'' event = Some (JStr s) \<and>
    P s = Some (JObj [(''sequences'', JArr [rawSequenceA])]) \<longrightarrow>
      sequences (handleUEResponse P heldReady now r event st) =
        [\<lparr>seq_id = JStr ''a'', seq_name = JStr ''A'', category = JStr ''Interior'',
          duration = JNum 5, thumbnail = None\<rparr>])"
proof -
  note h = handleUEResponse_GetSequences [OF assms]
  have c2: "statusOK event \<and> getProp ''data'' event = Some (JStr s) \<and> P s = Some pd \<longrightarrow>
      sequences (handleUEResponse P heldReady now r event st) =
        (if JNull \<in> set (findSequencesData (Some pd) event) then []
         else map normalized (findSequencesData (Some pd) event))"
    unfolding h using onGetSequences_parsed [of event s P pd st] by blast
  have c3: "statusOK event \<and> (\<forall>t. getProp ''data'' event \<noteq> Some (JStr t)) \<longrightarrow>
      sequences (handleUEResponse P heldReady now r event st) =
        (if JNull \<in> set (findSequencesData (getProp ''data'' event) event) then []
         else map normalized (findSequencesData (getProp ''data'' event) event))"
    unfolding h using onGetSequences_structured [of event P st] by blast
  have c5: "statusOK event \<and> getProp ''data'' event = Some (JStr s) \<and> P s = None \<longrightarrow>
      sequences (handleUEResponse P heldReady now r event st) = []"
    unfolding h using onGetSequences_unparsed [of event s P st] by blast
  have c6: "\<not> statusOK event \<longrightarrow> sequences (handleUEResponse P heldReady now r event st) = []"
    unfolding h by (simp add: onGetSequences_failed)
  have c7: "statusOK event \<and> getProp ''data'' event = Some (JStr s) \<and>
    P s = Some (JObj [(''sequences'', JArr [rawSequenceA])]) \<longrightarrow>
      sequences (handleUEResponse P heldReady now r event st) =
        [\<lparr>seq_id = JStr ''a'', seq_name = JStr ''A'', category = JStr ''Interior'',
          duration = JNum 5, thumbnail = None\<rparr>]"
  proof
    assume a: "statusOK event \<and> getProp ''data'' event = Some (JStr s) \<and>
      P s = Some (JObj [(''sequences'', JArr [rawSequenceA])])"
    have f: "findSequencesData (Some (JObj [(''sequences'', JArr [rawSequenceA])])) event
               = [rawSequenceA]"
      by (simp add: findSequencesData_first_location)
    have n: "rawSequenceA \<noteq> JNull" by (simp add: rawSequenceA_def)
    have "sequences (onGetSequences P event st) = [normalized rawSequenceA]"
      using a n by (simp add: onGetSequences_parsed f)
    then show "sequences (handleUEResponse P heldReady now r event st) =
        [\<lparr>seq_id = JStr ''a'', seq_name = JStr ''A'', category = JStr ''Interior'',
          duration = JNum 5, thumbnail = None\<rparr>]"
      unfolding h by (simp only: normalized_rawSequenceA)
  qed
  from c2 c3 c5 c6 c7 show ?thesis by blast
qed

text \<open>
  C3, as stated, fails: a raw sequence that carries its id under \<open>id\<close> and no
  display-name field gets the name \<open>Unnamed Sequence\<close>, not its id.
\<close>

theorem name_does_not_default_to_id:
  "normalizeSequence (JObj [(''id'', JStr ''a'')]) = Inr
     \<lparr>seq_id = JStr ''a'', seq_name = JStr ''Unnamed Sequence'', category = JStr ''Exterior'',
      duration = JNum 10, thumbnail = None\<rparr>"
  by (simp add: normalizeSequence_def jsOrLit_def jsOr_def truthyV_def)

text \<open>
  C3, amended. A raw sequence other than \<open>null\<close> is normalized field by field to the
  first truthy candidate (a value that is present and not empty, zero, false or null)
  in a fixed order, else a default: the id from \<open>sequenceId\<close>, \<open>id\<close>, \<open>SequenceId\<close>,
  else \<open>unknown\<close>; the name from \<open>displayName\<close>, \<open>name\<close>, \<open>DisplayName\<close>,
  \<open>sequenceId\<close>, else \<open>Unnamed Sequence\<close>; the category from \<open>category\<close>,
  \<open>Category\<close>, else \<open>Exterior\<close>; the duration from \<open>duration\<close>, \<open>Duration\<close>,
  else 10 (\<open>normalized\<close>). A \<open>GetSequences\<close> response with status \<open>OK\<close> sets the
  sequence list to the normalized entries of the whole list of raw sequences found in
  it, in order, one entry for each; when an element of that list is \<open>null\<close> the
  sequence list is set to empty. This holds both when \<open>data\<close> is a string that parses
  and when it is not a string. The list is looked for in five places in order: the
  payload's \<open>sequences\<close>, the envelope's \<open>sequences\<close>, the payload itself, the
  \<open>sequences\<close> of the envelope's \<open>data\<close> (each when it is an array), and the payload
  as a single raw sequence when it is an object with a truthy \<open>sequenceId\<close>; found
  nowhere, the list is empty. A \<open>data\<close> string that does not parse, and a status other than
  \<open>OK\<close>, give the empty list. In particular a response with status \<open>OK\<close> whose
  \<open>data\<close> is a string that parses to \<open>{sequences: [{SequenceId: "a", DisplayName:
  "A", Category: "Interior", Duration: 5}]}\<close> sets the sequence list to the one entry
  with id \<open>a\<close>, name \<open>A\<close>, category \<open>Interior\<close> and duration 5.
\<close>

theorem normalizeSequence_priority:
  "(sq \<noteq> JNull \<longrightarrow>
      normalizeSequence sq = Inr
        \<lparr>seq_id =
           firstTruthy [getProp ''sequenceId'' sq, getProp ''id'' sq, getProp ''SequenceId'' sq]
             (JStr ''unknown''),
         seq_name =
           firstTruthy [getProp ''displayName'' sq, getProp ''name'' sq,
                        getProp ''DisplayName'' sq, getProp ''sequenceId'' sq]
             (JStr ''Unnamed Sequence''),
         category =
           firstTruthy [getProp ''category'' sq, getProp ''Category'' sq] (JStr ''Exterior''),
         duration =
           firstTruthy [getProp ''duration'' sq, getProp ''Duration'' sq] (JNum 10),
         thumbnail =
           jsOr (jsOr (getProp ''thumbnailPath'' sq) (getProp ''ThumbnailPath'' sq))
             (getProp ''thumbnail'' sq)\<rparr> \<and>
      normalizeSequence sq = Inr (normalized sq)) \<and>
   (getProp ''sequences'' pd = Some (JArr xs) \<longrightarrow> findSequencesData (Some pd) event = xs) \<and>
   findSequencesData payload event =
      (if isArrayV (propV ''sequences'' payload) then itemsV (propV ''sequences'' payload)
       else if isArrayV (getProp ''sequences'' event) then itemsV (getProp ''sequences'' event)
       else if isArrayV payload then itemsV payload
       else if isArrayV (propV ''sequences'' (getProp ''data'' event))
         then itemsV (propV ''sequences'' (getProp ''data'' event))
       else (case payload of
               Some (JObj kvs) \<Rightarrow> if truthyV (map_of kvs ''sequenceId'') then [JObj kvs] else []
             | _ \<Rightarrow> [])) \<and>
   (isAction event ''Sequence'' ''GetSequences'' \<longrightarrow>
      (statusOK event \<and> getProp ''data'' event = Some (JStr s) \<and> P s = Some pd \<longrightarrow>
         sequences (handleUEResponse P heldReady now r event st) =
           (if JNull \<in> set (findSequencesData (Some pd) event) then []
            else map normalized (findSequencesData (Some pd) event))) \<and>
      (statusOK event \<and> (\<forall>t. getProp ''data'' event \<noteq> Some (JStr t)) \<longrightarrow>
         sequences (handleUEResponse P heldReady now r event st) =
           (if JNull \<in> set (findSequencesData (getProp ''data'' event) event) then []
            else map normalized (findSequencesData (getProp ''data'' event) event))) \<and>
      (statusOK event \<and> getProp ''data'' event = Some (JStr s) \<and> P s = None \<longrightarrow>
         sequences (handleUEResponse P heldReady now r event st) = []) \<and>
      (\<not> statusOK event \<longrightarrow> sequences (handleUEResponse P heldReady now r event st) = []) \<and>
      (statusOK event \<and> getProp ''data'' event = Some (JStr s) \<and>
       P s = Some (JObj [(''sequences'', JArr [rawSequenceA])]) \<longrightarrow>
         sequences (handleUEResponse P heldReady now r event st) =
           [\<lparr>seq_id = JStr ''a'', seq_name = JStr ''A'', category = JStr ''Interior'',
             duration = JNum 5, thumbnail = None\<rparr>]))"
proof -
  have c1: "sq \<noteq> JNull \<longrightarrow>
      normalizeSequence sq = Inr
        \<lparr>seq_id =
           firstTruthy [getProp ''sequenceId'' sq, getProp ''id'' sq, getProp ''SequenceId'' sq]
             (JStr ''unknown''),
         seq_name =
           firstTruthy [getProp ''displayName'' sq, getProp ''name'' sq,
                        getProp ''DisplayName'' sq, getProp ''sequenceId'' sq]
             (JStr ''Unnamed Sequence''),
         category =
           firstTruthy [getProp ''category'' sq, getProp ''Category'' sq] (JStr ''Exterior''),
         duration =
           firstTruthy [getProp ''duration'' sq, getProp ''Duration'' sq] (JNum 10),
         thumbnail =
           jsOr (jsOr (getProp ''thumbnailPath'' sq) (getProp ''ThumbnailPath'' sq))
             (getProp ''thumbnail'' sq)\<rparr> \<and>
      normalizeSequence sq = Inr (normalized sq)"
    using normalizeSequence_normalized [of sq] by (simp add: normalized_def)
  have c4: "getProp ''sequences'' pd = Some (JArr xs) \<longrightarrow> findSequencesData (Some pd) event = xs"
    by (simp add: findSequencesData_first_location)
  note c8 = findSequencesData_places [of payload event]
  from c1 c4 c8 discovery_list [of event s P pd heldReady now r st] show ?thesis
    by blast
qed

theorem normalizeSequence_priority_witness:
  "isAction twoSequencesResponse ''Sequence'' ''GetSequences'' \<and> statusOK twoSequencesResponse \<and>
   sequences (handleUEResponse sampleParse True 1700000000000 connectedRegistry
                twoSequencesResponse playingState) =
     [\<lparr>seq_id = JStr ''a'', seq_name = JStr ''A'', category = JStr ''Interior'',
       duration = JNum 5, thumbnail = None\<rparr>,
      \<lparr>seq_id = JStr ''b'', seq_name = JStr ''Unnamed Sequence'', category = JStr ''Exterior'',
       duration = JNum 10, thumbnail = None\<rparr>] \<and>
   isAction nullElementResponse ''Sequence'' ''GetSequences'' \<and> statusOK nullElementResponse \<and>
   sequences (handleUEResponse sampleParse True 1700000000000 connectedRegistry
                nullElementResponse playingState) = [] \<and>
   isAction getSequencesResponse ''Sequence'' ''GetSequences'' \<and> statusOK getSequencesResponse \<and>
   getProp ''data'' getSequencesResponse = Some (JStr sequencesText) \<and>
   sampleParse sequencesText = Some (JObj [(''sequences'', JArr [rawSequenceA])]) \<and>
   sequences (handleUEResponse sampleParse True 1700000000000 connectedRegistry getSequencesResponse
                playingState) =
     [\<lparr>seq_id = JStr ''a'', seq_name = JStr ''A'', category = JStr ''Interior'',
       duration = JNum 5, thumbnail = None\<rparr>]"
proof -
  let ?two = "JObj [(''sequences'', JArr [rawSequenceA, JObj [(''id'', JStr ''b'')]])]"
  let ?nul = "JObj [(''sequences'', JArr [rawSequenceA, JNull])]"
  have two: "isAction twoSequencesResponse ''Sequence'' ''GetSequences''"
    "statusOK twoSequencesResponse"
    "getProp ''data'' twoSequencesResponse = Some ?two"
    by (simp_all add: twoSequencesResponse_def isAction_def statusOK_def)
  have nul: "isAction nullElementResponse ''Sequence'' ''GetSequences''"
    "statusOK nullElementResponse"
    "getProp ''data'' nullElementResponse = Some ?nul"
    by (simp_all add: nullElementResponse_def isAction_def statusOK_def)
  have str: "isAction getSequencesResponse ''Sequence'' ''GetSequences''"
    "statusOK getSequencesResponse"
    "getProp ''data'' getSequencesResponse = Some (JStr sequencesText)"
    by (simp_all add: getSequencesResponse_def isAction_def statusOK_def)
  have parsed: "sampleParse sequencesText = Some (JObj [(''sequences'', JArr [rawSequenceA])])"
    by (rule sampleParse_values)
  have found:
    "findSequencesData (Some ?two) twoSequencesResponse = [rawSequenceA, JObj [(''id'', JStr ''b'')]]"
    "findSequencesData (Some ?nul) nullElementResponse = [rawSequenceA, JNull]"
    by (simp_all add: findSequencesData_def propV_def truthyV_def isArrayV_def itemsV_def)
  have entries:
    "normalized rawSequenceA =
       \<lparr>seq_id = JStr ''a'', seq_name = JStr ''A'', category = JStr ''Interior'',
        duration = JNum 5, thumbnail = None\<rparr>"
    "normalized (JObj [(''id'', JStr ''b'')]) =
       \<lparr>seq_id = JStr ''b'', seq_name = JStr ''Unnamed Sequence'', category = JStr ''Exterior'',
        duration = JNum 10, thumbnail = None\<rparr>"
    "rawSequenceA \<noteq> JNull"
    by (simp_all add: rawSequenceA_def normalized_def jsOr_def truthyV_def)
  have a: "sequences (handleUEResponse sampleParse True 1700000000000 connectedRegistry
                        twoSequencesResponse playingState) =
             [normalized rawSequenceA, normalized (JObj [(''id'', JStr ''b'')])]"
    using normalizeSequence_priority
            [where event = twoSequencesResponse and P = sampleParse and heldReady = True
               and now = 1700000000000 and r = connectedRegistry and st = playingState]
          two found entries(3)
    by simp
  have b: "sequences (handleUEResponse sampleParse True 1700000000000 connectedRegistry
                        nullElementResponse playingState) = []"
    using normalizeSequence_priority
            [where event = nullElementResponse and P = sampleParse and heldReady = True
               and now = 1700000000000 and r = connectedRegistry and st = playingState]
          nul found
    by simp
  have c: "sequences (handleUEResponse sampleParse True 1700000000000 connectedRegistry
                        getSequencesResponse playingState) = [normalized rawSequenceA]"
    using normalizeSequence_priority
            [where event = getSequencesResponse and P = sampleParse and heldReady = True
               and now = 1700000000000 and r = connectedRegistry and st = playingState
               and s = sequencesText]
          str parsed entries(1)
    by simp
  show ?thesis
    using a b c two nul str parsed by (simp add: entries)
qed

section \<open>Render request, cancellation and progress\<close>

lemma playingState_fields:
  "isReady playingState" "isPlaying playingState" "renderJob playingState = None"
  "selectedSequences playingState = [Some ''Seq_Orbit'', Some ''Seq_Interior'', Some ''Seq_Front'']"
  "sent playingState = []" "timers playingState = []"
  by (simp_all add: playingState_def initialState_def)

lemma renderingState_fields:
  "isReady renderingState" "renderJob renderingState = Some trackedJob"
  "sent renderingState = []" "status trackedJob = rendering" "job_id trackedJob = JStr ''job-7''"
  by (simp_all add: renderingState_def playingState_def initialState_def trackedJob_def)

text \<open>
  C4. When the render request runs while sequences are playing (the readiness flag set,
  a session registered, the queue not empty, no job rendering), the call itself sends
  the \<open>StopSequence\<close> command and nothing else, and schedules the render callback with
  a delay of 200 ms. The \<open>RenderSequenceList\<close> command is sent by that callback only:
  whenever it runs it appends the command to what has been sent by then, so the command
  follows the stop command; fired right after the call, the two are consecutive.
\<close>

theorem handleRenderSequence_stops_before_render:
  assumes "isReady st" and "getPS r = Some ps" and "selectedSequences st \<noteq> []"
      and "\<not> isRendering (renderJob st)" and "isPlaying st"
  shows "sent (handleRenderSequence r st) = sent st @ [(ps, stopSequenceCommand)] \<and>
         timers (handleRenderSequence r st)
           = timers st @ [(200, RenderTask ps (selectedSequences st))] \<and>
         (\<forall>st'. sent (runTask now r' (RenderTask ps (selectedSequences st)) st')
                  = sent st' @ [(ps, renderSequenceListCommand (selectedSequences st))]) \<and>
         sent (fireTimer now r' (length (timers st)) (handleRenderSequence r st))
           = sent st @ [(ps, stopSequenceCommand),
                        (ps, renderSequenceListCommand (selectedSequences st))] \<and>
         isAction stopSequenceCommand ''Sequence'' ''StopSequence'' \<and>
         isAction (renderSequenceListCommand (selectedSequences st)) ''Render'' ''RenderSequenceList''"
  using assms
  by (simp add: handleRenderSequence_def emitUIInteraction_def setTimeout_def fireTimer_def
        runTask_def stopSequenceCommand_def renderSequenceListCommand_def command_def isAction_def)

theorem handleRenderSequence_stops_before_render_witness:
  "isReady playingState \<and> getPS connectedRegistry = Some 1 \<and>
   selectedSequences playingState \<noteq> [] \<and> \<not> isRendering (renderJob playingState) \<and>
   isPlaying playingState \<and>
   sent (handleRenderSequence connectedRegistry playingState) = [(1, stopSequenceCommand)] \<and>
   timers (handleRenderSequence connectedRegistry playingState)
     = [(200, RenderTask 1 [Some ''Seq_Orbit'', Some ''Seq_Interior'', Some ''Seq_Front''])] \<and>
   sent (fireTimer 1700000000200 connectedRegistry 0
           (handleRenderSequence connectedRegistry playingState))
     = [(1, stopSequenceCommand),
        (1, renderSequenceListCommand [Some ''Seq_Orbit'', Some ''Seq_Interior'', Some ''Seq_Front''])]"
proof -
  have h1: "isReady playingState" and h5: "isPlaying playingState"
    by (rule playingState_fields)+
  have h2: "getPS connectedRegistry = Some 1"
    by (simp add: getPS_def connectedRegistry_fields)
  have h3: "selectedSequences playingState \<noteq> []"
    by (simp add: playingState_fields)
  have h4: "\<not> isRendering (renderJob playingState)"
    by (simp add: isRendering_def playingState_fields)
  show ?thesis
    using handleRenderSequence_stops_before_render
            [OF h1 h2 h3 h4 h5, of 1700000000200 connectedRegistry] h1 h2 h3 h4 h5
    by (simp add: playingState_fields)
qed

text \<open>
  C6. The cancel handler changes nothing unless the readiness flag is set and the
  tracked job has status \<open>rendering\<close> (nor when no session is registered). When it
  applies, the same call sends a \<open>Render/CancelRender\<close> command whose \<open>data\<close> is the
  string \<open>JSON.stringify({jobId})\<close> of the tracked job's id, and sets the tracked job
  to \<open>failed\<close> with the message \<open>Render cancelled by user\<close>, the other fields kept.
\<close>

theorem handleCancelRender_optimistic:
  "(\<not> (isReady st \<and> isRendering (renderJob st)) \<longrightarrow> handleCancelRender S r st = st) \<and>
   (getPS r = None \<longrightarrow> handleCancelRender S r st = st) \<and>
   (isReady st \<and> renderJob st = Some job \<and> status job = rendering \<and> getPS r = Some ps \<longrightarrow>
      handleCancelRender S r st =
        st\<lparr>sent := sent st @ [(ps, cancelRenderCommand S (job_id job))],
           renderJob := Some (job\<lparr>status := failed,
                                   errorMessage := Some (JStr ''Render cancelled by user'')\<rparr>)\<rparr> \<and>
      isAction (cancelRenderCommand S (job_id job)) ''Render'' ''CancelRender'' \<and>
      getProp ''data'' (cancelRenderCommand S (job_id job))
        = Some (JStr (S (JObj [(''jobId'', job_id job)]))))"
  by (auto simp add: handleCancelRender_def isRendering_def emitUIInteraction_def
        cancelRenderCommand_def command_def isAction_def split: option.splits)

theorem handleCancelRender_optimistic_witness:
  \<open>isReady renderingState \<and> renderJob renderingState = Some trackedJob \<and>
   status trackedJob = rendering \<and> getPS connectedRegistry = Some 1 \<and>
   handleCancelRender sampleStringify connectedRegistry renderingState =
     renderingState
       \<lparr>sent := [(1, cancelRenderCommand sampleStringify (JStr ''job-7''))],
        renderJob := Some (trackedJob\<lparr>status := failed,
                                      errorMessage := Some (JStr ''Render cancelled by user'')\<rparr>)\<rparr> \<and>
   getProp ''data'' (cancelRenderCommand sampleStringify (JStr ''job-7''))
     = Some (JStr ''{"jobId":"job-7"}'') \<and>
   \<not> (isReady playingState \<and> isRendering (renderJob playingState)) \<and>
   handleCancelRender sampleStringify connectedRegistry playingState = playingState\<close>
proof -
  have applies:
    "isReady renderingState \<and> renderJob renderingState = Some trackedJob \<and>
     status trackedJob = rendering \<and> getPS connectedRegistry = Some 1"
    by (simp add: renderingState_fields getPS_def connectedRegistry_fields)
  have idle: "\<not> (isReady playingState \<and> isRendering (renderJob playingState))"
    by (simp add: isRendering_def playingState_fields)
  show ?thesis
    using handleCancelRender_optimistic
            [of renderingState sampleStringify connectedRegistry trackedJob 1]
          handleCancelRender_optimistic
            [of playingState sampleStringify connectedRegistry trackedJob 1]
          applies idle
    by (simp add: renderingState_fields sampleStringify_def)
qed

lemma handleUEResponse_RenderProgress:
  "isAction event ''Render'' ''RenderProgress'' \<Longrightarrow>
   handleUEResponse P heldReady now r event st = onRenderProgress P now event st"
  by (simp add: handleUEResponse_def isAction_def)

lemma renderId_sample: "renderId 1700000000000 = JStr ''render-1700000000000''"
  by (simp add: renderId_def showNat.simps digitChar_def)

text \<open>
  C7, as stated, fails: a \<open>RenderProgress\<close> event without \<open>data\<close> (so without
  \<open>jobId\<close> and \<open>sequenceId\<close>) that arrives when no job is tracked is dropped; no job
  is made up.
\<close>

theorem progress_without_payload_is_dropped:
  "isAction bareProgressEvent ''Render'' ''RenderProgress'' \<and>
   getProp ''data'' bareProgressEvent = None \<and>
   renderJob playingState = None \<and>
   renderJob (handleUEResponse sampleParse True 1700000000000 connectedRegistry bareProgressEvent
                playingState) = None"
  by (simp add: bareProgressEvent_def handleUEResponse_def isAction_def onRenderProgress_def
        parseRenderData_def truthyV_def playingState_fields)

text \<open>
  C7, amended. A \<open>RenderProgress\<close> event whose payload (\<open>data\<close>, parsed when it is a
  string) is truthy sets the tracked job to \<open>rendering\<close>; where the payload has no
  \<open>jobId\<close> the new job takes the id of the tracked job (when that is truthy, as the ids
  the page itself assigns are), and with no tracked job the id \<open>render-\<close> followed by
  the time; where it has no \<open>sequenceId\<close> the new job takes the tracked job's, and with
  no tracked job \<open>unknown\<close>. An event whose payload is absent or falsy changes nothing.
\<close>

theorem renderProgress_inherits_or_fabricates:
  assumes "isAction event ''Render'' ''RenderProgress''"
  shows
   "(\<not> truthyV (parseRenderData P event) \<longrightarrow> handleUEResponse P heldReady now r event st = st) \<and>
    (truthyV (parseRenderData P event) \<longrightarrow>
       map_option status (renderJob (handleUEResponse P heldReady now r event st)) = Some rendering \<and>
       (propV ''jobId'' (parseRenderData P event) = None \<longrightarrow>
          jobIdOf (renderJob (handleUEResponse P heldReady now r event st)) =
            Some (case renderJob st of
                    None \<Rightarrow> renderId now
                  | Some old \<Rightarrow> if truthy (job_id old) then job_id old else renderId now)) \<and>
       (propV ''sequenceId'' (parseRenderData P event) = None \<longrightarrow>
          jobSequenceIdOf (renderJob (handleUEResponse P heldReady now r event st)) =
            Some (case renderJob st of
                    None \<Rightarrow> JStr ''unknown''
                  | Some old \<Rightarrow>
                      if truthy (sequenceId old) then sequenceId old else JStr ''unknown'')))"
  using assms
  by (auto simp add: handleUEResponse_RenderProgress onRenderProgress_def Let_def
        jsOrLit_def jsOr_def truthyV_def jobIdOf_def jobSequenceIdOf_def split: option.splits)

theorem renderProgress_inherits_or_fabricates_witness:
  "isAction progressEvent ''Render'' ''RenderProgress'' \<and>
   parseRenderData sampleParse progressEvent = Some (JObj [(''progress'', JNum 55)]) \<and>
   renderJob (handleUEResponse sampleParse True 1700000000000 connectedRegistry progressEvent
                renderingState) =
     Some \<lparr>job_id = JStr ''job-7'', sequenceId = JStr ''Seq_Orbit,Seq_Interior'',
           status = rendering, progress = JNum 55, downloadUrl = None, errorMessage = None\<rparr> \<and>
   jobIdOf (renderJob (handleUEResponse sampleParse True 1700000000000 connectedRegistry progressEvent
                         playingState)) = Some (JStr ''render-1700000000000'') \<and>
   jobSequenceIdOf (renderJob (handleUEResponse sampleParse True 1700000000000 connectedRegistry
                                 progressEvent playingState)) = Some (JStr ''unknown'')"
proof -
  have act: "isAction progressEvent ''Render'' ''RenderProgress''"
    by (simp add: progressEvent_def isAction_def)
  have payload: "parseRenderData sampleParse progressEvent = Some (JObj [(''progress'', JNum 55)])"
    by (simp add: parseRenderData_def progressEvent_def sampleParse_values)
  have tracked:
    "renderJob (handleUEResponse sampleParse True 1700000000000 connectedRegistry progressEvent
                  renderingState) =
       Some \<lparr>job_id = JStr ''job-7'', sequenceId = JStr ''Seq_Orbit,Seq_Interior'',
             status = rendering, progress = JNum 55, downloadUrl = None, errorMessage = None\<rparr>"
    by (simp add: handleUEResponse_RenderProgress [OF act] onRenderProgress_def payload
          renderingState_fields trackedJob_def jsOrLit_def jsOr_def truthyV_def propV_def
          jobIdOf_def jobSequenceIdOf_def)
  show ?thesis
    using renderProgress_inherits_or_fabricates
            [OF act, where P = sampleParse and heldReady = True and now = 1700000000000
               and r = connectedRegistry and st = playingState]
          act payload tracked
    by (simp add: truthyV_def propV_def playingState_fields renderId_sample)
qed

subsection \<open>The id of the tracked job is never empty\<close>

text \<open>
  Every job the page records has a truthy id: the engine's \<open>jobId\<close> when that is
  truthy, else the id of the job tracked before, else \<open>render-\<close> and the time.
\<close>

lemma truthy_renderId: "truthy (renderId now)"
  by (simp add: renderId_def)

lemma truthy_jsOrLit: "truthy d \<Longrightarrow> truthy (jsOrLit a d)"
  by (simp add: jsOrLit_def split: option.splits)

lemma jobIdOk_assign:
  "truthy (job_id job) \<Longrightarrow> jobIdOk (st\<lparr>renderJob := Some job\<rparr>)"
  by (simp add: jobIdOk_def)

lemma jobIdOk_handleUEResponse:
  assumes "jobIdOk st"
  shows "jobIdOk (handleUEResponse P heldReady now r event st)"
proof -
  have render: "jobIdOk (onRenderStarted P now event st)"
    "jobIdOk (onRenderProgress P now event st)"
    "jobIdOk (onRenderComplete P now event st)"
    "jobIdOk (onRenderFailed P now event st)"
    "jobIdOk (onRenderCancelled P now event st)"
    using assms
    by (simp_all add: onRenderStarted_def onRenderProgress_def onRenderComplete_def
          onRenderFailed_def onRenderCancelled_def failRenderJob_def Let_def jobIdOk_assign
          truthy_jsOrLit truthy_renderId)
  have other: "renderJob (onCarLoadById r event st) = renderJob st"
    "renderJob (onChangeBackground heldReady event st) = renderJob st"
    "renderJob (onChangeDayNight event st) = renderJob st"
    "renderJob (onTakeScreenshot prefix now event st) = renderJob st"
    "renderJob (onGetSequences P event st) = renderJob st"
    "renderJob (onPlaySequence event st) = renderJob st"
    "renderJob (onStopSequence event st) = renderJob st"
    "renderJob (onSequenceFinished st) = renderJob st" for prefix
    by (simp_all add: onCarLoadById_def onChangeBackground_def onChangeDayNight_def
          onTakeScreenshot_def onGetSequences_def loadSequences_def onPlaySequence_def
          onStopSequence_def onSequenceFinished_def setTimeout_def Let_def
          split: option.splits json.splits sum.splits)
  show ?thesis
    using assms render by (simp add: handleUEResponse_def jobIdOk_def other)
qed

lemma jobIdOk_infoListener: "jobIdOk st \<Longrightarrow> jobIdOk (infoListener P heldReady now r response st)"
  by (simp add: infoListener_def jobIdOk_handleUEResponse split: option.splits)

lemma jobIdOk_handleRenderSequence: "jobIdOk st \<Longrightarrow> jobIdOk (handleRenderSequence r st)"
  by (simp add: handleRenderSequence_def jobIdOk_def emitUIInteraction_def setTimeout_def
        split: option.splits)

lemma jobIdOk_handleCancelRender: "jobIdOk st \<Longrightarrow> jobIdOk (handleCancelRender S r st)"
  by (auto simp add: handleCancelRender_def jobIdOk_def emitUIInteraction_def
        split: option.splits)

lemma jobIdOk_fireTimer: "jobIdOk st \<Longrightarrow> jobIdOk (fireTimer now r i st)"
  by (auto simp add: fireTimer_def runTask_def jobIdOk_def emitUIInteraction_def
        loadSequencesForCurrentLevel_def Let_def truthy_renderId split: task.splits option.splits)

lemma jobIdOk_initialState: "jobIdOk (initialState cid)"
  by (simp add: jobIdOk_def initialState_def)

end
